theory Spec2Isabelle
  imports Complex_Main "HOL-Library.Log_Nat"
begin

section \<open>Numbers, dates and Python built-ins\<close>

text \<open>
  The calculators of \<^verbatim>\<open>src/transformation/calculators.py\<close> work on pandas columns of
  dtype float64, where a division by zero does not raise: it yields an infinity or NaN,
  and every comparison with NaN is false. A float is modelled as a rational or one of
  the three special values. The quotient \<open>budget_spent / budget_allocated\<close> and the
  literals it is compared with are rounded to binary64 (\<open>float64\<close> below), since the
  budget bands are decided within one unit in the last place of their edges. The other
  operations are exact: their rounding, overflow to infinity and the sign of a zero are
  not modelled, and a zero divisor is read as \<open>+0.0\<close>.
\<close>

datatype fval = Fin rat | PInf | NInf | NaN

fun fneg :: "fval \<Rightarrow> fval" where
  "fneg (Fin a) = Fin (- a)"
| "fneg PInf = NInf"
| "fneg NInf = PInf"
| "fneg NaN = NaN"

fun fadd :: "fval \<Rightarrow> fval \<Rightarrow> fval" where
  "fadd (Fin a) (Fin b) = Fin (a + b)"
| "fadd NaN _ = NaN"
| "fadd _ NaN = NaN"
| "fadd PInf NInf = NaN"
| "fadd NInf PInf = NaN"
| "fadd PInf _ = PInf"
| "fadd _ PInf = PInf"
| "fadd NInf _ = NInf"
| "fadd _ NInf = NInf"

definition fsub :: "fval \<Rightarrow> fval \<Rightarrow> fval" where
  "fsub a b = fadd a (fneg b)"

fun fmul :: "fval \<Rightarrow> fval \<Rightarrow> fval" where
  "fmul (Fin a) (Fin b) = Fin (a * b)"
| "fmul NaN _ = NaN"
| "fmul _ NaN = NaN"
| "fmul PInf (Fin b) = (if b = 0 then NaN else if 0 < b then PInf else NInf)"
| "fmul NInf (Fin b) = (if b = 0 then NaN else if 0 < b then NInf else PInf)"
| "fmul (Fin a) PInf = (if a = 0 then NaN else if 0 < a then PInf else NInf)"
| "fmul (Fin a) NInf = (if a = 0 then NaN else if 0 < a then NInf else PInf)"
| "fmul PInf PInf = PInf"
| "fmul PInf NInf = NInf"
| "fmul NInf PInf = NInf"
| "fmul NInf NInf = PInf"

fun fdiv :: "fval \<Rightarrow> fval \<Rightarrow> fval" where
  "fdiv (Fin a) (Fin b) =
     (if b = 0 then (if a = 0 then NaN else if 0 < a then PInf else NInf)
      else Fin (a / b))"
| "fdiv NaN _ = NaN"
| "fdiv _ NaN = NaN"
| "fdiv (Fin a) PInf = Fin 0"
| "fdiv (Fin a) NInf = Fin 0"
| "fdiv PInf (Fin b) = (if 0 \<le> b then PInf else NInf)"
| "fdiv NInf (Fin b) = (if 0 \<le> b then NInf else PInf)"
| "fdiv PInf PInf = NaN"
| "fdiv PInf NInf = NaN"
| "fdiv NInf PInf = NaN"
| "fdiv NInf NInf = NaN"

fun flt :: "fval \<Rightarrow> fval \<Rightarrow> bool" where
  "flt (Fin a) (Fin b) = (a < b)"
| "flt NaN _ = False"
| "flt _ NaN = False"
| "flt _ NInf = False"
| "flt PInf _ = False"
| "flt NInf _ = True"
| "flt _ PInf = True"

fun fle :: "fval \<Rightarrow> fval \<Rightarrow> bool" where
  "fle (Fin a) (Fin b) = (a \<le> b)"
| "fle NaN _ = False"
| "fle _ NaN = False"
| "fle NInf _ = True"
| "fle _ PInf = True"
| "fle _ NInf = False"
| "fle PInf _ = False"

definition fgt :: "fval \<Rightarrow> fval \<Rightarrow> bool" where
  "fgt a b = flt b a"

definition fge :: "fval \<Rightarrow> fval \<Rightarrow> bool" where
  "fge a b = fle b a"

text \<open>Python's \<^verbatim>\<open>max(a, b)\<close> keeps \<open>a\<close> unless \<open>b > a\<close>, and \<^verbatim>\<open>min(a, b)\<close>
  keeps \<open>a\<close> unless \<open>b < a\<close>; with a NaN argument the comparison is false.\<close>

definition py_max :: "fval \<Rightarrow> fval \<Rightarrow> fval" where
  "py_max a b = (if fgt b a then b else a)"

definition py_min :: "fval \<Rightarrow> fval \<Rightarrow> fval" where
  "py_min a b = (if flt b a then b else a)"

text \<open>\<^verbatim>\<open>Series.fillna(d)\<close>, \<^verbatim>\<open>Series.sum()\<close> and \<^verbatim>\<open>Series.mean()\<close>: the last two skip
  NaN entries; the sum of nothing is 0 and the mean of nothing is NaN.\<close>

definition fillna :: "fval \<Rightarrow> fval \<Rightarrow> fval" where
  "fillna x d = (if x = NaN then d else x)"

definition fsum :: "fval list \<Rightarrow> fval" where
  "fsum xs = foldl fadd (Fin 0) (filter (\<lambda>x. x \<noteq> NaN) xs)"

definition fmean :: "fval list \<Rightarrow> fval" where
  "fmean xs =
     (let ys = filter (\<lambda>x. x \<noteq> NaN) xs
      in if ys = [] then NaN else fdiv (fsum ys) (Fin (of_nat (length ys))))"

text \<open>A datetime is a count of microseconds. \<^verbatim>\<open>timedelta(days=d)\<close> with a float \<open>d\<close>
  rounds to the nearest microsecond, ties to even, and raises on NaN and on an infinity.\<close>

datatype error = ZeroDivisionError | ValueError | OverflowError

definition day :: int where
  "day = 86400000000"

definition round_half_even :: "rat \<Rightarrow> int" where
  "round_half_even x =
     (let f = \<lfloor>x\<rfloor>; d = x - of_int f
      in if d < 1 / 2 then f else if 1 / 2 < d then f + 1
         else if even f then f else f + 1)"

text \<open>The binary64 value of a rational, rounded to nearest with ties to even: a
  significand of 53 bits scaled by a power of two, the exponent not below -1074
  (subnormal numbers), and an infinity from \<open>2 ^ 1024\<close> on. \<open>floor_log2 a\<close> is the
  exponent \<open>k\<close> with \<open>2 ^ k \<le> a < 2 ^ (k + 1)\<close> for a positive \<open>a\<close>, found from the bit
  lengths of the numerator and the denominator. A Python literal such as \<^verbatim>\<open>0.8\<close> is
  \<open>float64 (8 / 10)\<close>.\<close>

definition pow2 :: "int \<Rightarrow> rat" where
  "pow2 e = (if 0 \<le> e then 2 ^ nat e else 1 / 2 ^ nat (- e))"

definition floor_log2 :: "rat \<Rightarrow> int" where
  "floor_log2 a =
     (let (p, q) = quotient_of a; e = bitlen p - bitlen q
      in if pow2 e \<le> a then e else e - 1)"

definition float64 :: "rat \<Rightarrow> fval" where
  "float64 x =
     (if x = 0 then Fin 0
      else
        (let e = max (floor_log2 \<bar>x\<bar> - 52) (- 1074);
             m = round_half_even (\<bar>x\<bar> / pow2 e);
             y = of_int m * pow2 e
         in if pow2 1024 \<le> y then (if 0 < x then PInf else NInf)
            else Fin (if 0 < x then y else - y)))"

fun fround :: "fval \<Rightarrow> fval" where
  "fround (Fin q) = float64 q"
| "fround x = x"

fun timedelta_days :: "fval \<Rightarrow> error + int" where
  "timedelta_days (Fin d) = Inr (round_half_even (d * of_int day))"
| "timedelta_days NaN = Inl ValueError"
| "timedelta_days PInf = Inl OverflowError"
| "timedelta_days NInf = Inl OverflowError"

text \<open>\<^verbatim>\<open>(a - b).dt.days\<close>: the whole days of a difference, rounded down.\<close>

definition dt_days :: "int \<Rightarrow> int" where
  "dt_days delta = delta div day"

section \<open>Data model\<close>

text \<open>The three input tables of \<^verbatim>\<open>src/ingestion/models.py\<close>, one record per row.\<close>

record financial_metric =
  initiative_id :: string
  date :: int
  revenue_impact :: fval
  cost_reduction :: fval
  roi_percentage :: fval
  budget_burn_rate :: fval
  forecast_completion_cost :: fval

record operational_metric =
  initiative_id :: string
  date :: int
  efficiency_gain_percentage :: fval
  process_cycle_time :: fval
  quality_score :: fval
  employee_satisfaction :: fval
  customer_satisfaction :: fval

text \<open>The nested dictionaries of the portfolio metrics and the rows of the executive
  summary. A formatted number (\<^verbatim>\<open>f"{x:.1f}%"\<close>, \<^verbatim>\<open>f"{a}/{b}"\<close>) is kept as the
  value with the name of its format; its digits are not modelled.\<close>

record distribution =
  excellent :: nat
  good :: nat
  warning :: nat
  critical :: nat

record bucket =
  count :: nat
  names :: "string list"

record risk_bucket = bucket +
  total_budget :: fval

record type_performance =
  health_score :: "(string \<times> fval) list"
  budget_allocated :: "(string \<times> fval) list"
  roi_percentage :: "(string \<times> fval) list"

record portfolio_metrics =
  total_initiatives :: nat
  active_initiatives :: nat
  completed_initiatives :: nat
  total_budget_allocated :: fval
  total_budget_spent :: fval
  budget_utilization_rate :: fval
  total_financial_impact :: fval
  portfolio_roi :: fval
  health_distribution :: distribution
  at_risk_initiatives :: risk_bucket
  performance_by_type :: type_performance
  upcoming_completions :: bucket

datatype display = Percent1 fval | Ratio nat nat

record summary_row =
  metric_name :: string
  current_value :: display
  status :: string
  description :: string
  action_required :: string

text \<open>A row of the initiatives table.\<close>

record initiative =
  initiative_id :: string
  name :: string
  type :: string
  start_date :: int
  target_end_date :: int
  budget_allocated :: fval
  budget_spent :: fval
  status :: string
  owner :: string
  description :: string

text \<open>A row of \<^verbatim>\<open>health_df\<close> once the scores are computed (the columns added up to
  \<^verbatim>\<open>health_status\<close>), and the finished row with the two columns computed from it.\<close>

record scored = initiative +
  budget_utilization :: fval
  budget_score :: int
  days_since_start :: int
  total_duration :: int
  time_progress :: fval
  time_score :: int
  revenue_impact :: fval
  cost_reduction :: fval
  roi_percentage :: fval
  financial_score :: int
  efficiency_gain_percentage :: fval
  quality_score :: fval
  employee_satisfaction :: fval
  operational_score :: fval
  health_score :: fval
  health_status :: string

record initiative_health = scored +
  predicted_completion_date :: int
  risk_factors :: "string list"

section \<open>Health scorer\<close>

text \<open>The per-value scoring lambdas of \<^verbatim>\<open>calculate_initiative_health_scores\<close>, in the
  order of their branches.\<close>

definition budget_points :: "fval \<Rightarrow> int" where
  "budget_points x =
     (if fle (float64 (8 / 10)) x \<and> fle x (Fin 1) then 25
      else if fle (float64 (6 / 10)) x \<and> flt x (float64 (8 / 10)) \<or>
              flt (Fin 1) x \<and> fle x (float64 (11 / 10)) then 20
      else if fle (float64 (4 / 10)) x \<and> flt x (float64 (6 / 10)) \<or>
              flt (float64 (11 / 10)) x \<and> fle x (float64 (12 / 10)) then 10
      else 0)"

definition time_points :: "string \<Rightarrow> fval \<Rightarrow> int" where
  "time_points st tp =
     (if st = ''Completed'' then 25
      else if fle tp (Fin (9 / 10)) then 20
      else if fle tp (Fin 1) then 15
      else if fle tp (Fin (12 / 10)) then 5
      else 0)"

definition financial_points :: "fval \<Rightarrow> int" where
  "financial_points x =
     (if fge x (Fin 20) then 30
      else if fge x (Fin 15) then 25
      else if fge x (Fin 10) then 20
      else if fge x (Fin 5) then 15
      else if fge x (Fin 0) then 10
      else 0)"

definition operational_points :: "fval \<Rightarrow> fval \<Rightarrow> fval \<Rightarrow> fval" where
  "operational_points eff qual sat =
     (let x = fadd (fadd (fmul (fillna eff (Fin 0)) (Fin (4 / 10)))
                         (fmul (fillna qual (Fin 80)) (Fin (2 / 10))))
                   (fmul (fillna sat (Fin 7)) (Fin 2))
      in py_min (Fin 20) (py_max (Fin 0) x))"

definition health_status_of :: "fval \<Rightarrow> string" where
  "health_status_of x =
     (if fge x (Fin 80) then ''Excellent''
      else if fge x (Fin 65) then ''Good''
      else if fge x (Fin 50) then ''Warning''
      else ''Critical'')"

text \<open>\<^verbatim>\<open>groupby('initiative_id').agg(...)\<close>: one row per distinct identifier, with the sums
  and means of its samples. pandas sorts the groups by key; the order plays no part in
  the merge and the groups are kept here in the order of their last sample.\<close>

definition financial_agg :: "financial_metric list \<Rightarrow> (string \<times> fval \<times> fval \<times> fval) list" where
  "financial_agg df =
     map (\<lambda>k. let g = filter (\<lambda>s. financial_metric.initiative_id s = k) df
               in (k, fsum (map financial_metric.revenue_impact g),
                      fsum (map financial_metric.cost_reduction g),
                      fmean (map financial_metric.roi_percentage g)))
         (remdups (map financial_metric.initiative_id df))"

definition operational_agg :: "operational_metric list \<Rightarrow> (string \<times> fval \<times> fval \<times> fval) list" where
  "operational_agg df =
     map (\<lambda>k. let g = filter (\<lambda>s. operational_metric.initiative_id s = k) df
               in (k, fmean (map operational_metric.efficiency_gain_percentage g),
                      fmean (map operational_metric.quality_score g),
                      fmean (map operational_metric.employee_satisfaction g)))
         (remdups (map operational_metric.initiative_id df))"

text \<open>\<^verbatim>\<open>left.merge(right, on='initiative_id', how='left')\<close>: every left row, in order,
  once per matching right row, and once with missing values when nothing matches.\<close>

definition merge_left :: "('l \<Rightarrow> string) \<Rightarrow> 'l list \<Rightarrow> (string \<times> 'r) list \<Rightarrow> ('l \<times> 'r option) list" where
  "merge_left key ls rs =
     concat (map (\<lambda>l. case filter (\<lambda>r. fst r = key l) rs of
                         [] \<Rightarrow> [(l, None)]
                       | ms \<Rightarrow> map (\<lambda>r. (l, Some (snd r))) ms) ls)"

text \<open>The three aggregate columns of a merged row: NaN where the merge found nothing.\<close>

definition merged_cols :: "(fval \<times> fval \<times> fval) option \<Rightarrow> fval \<times> fval \<times> fval" where
  "merged_cols a = (case a of None \<Rightarrow> (NaN, NaN, NaN) | Some c \<Rightarrow> c)"

text \<open>The columns up to \<^verbatim>\<open>health_status\<close> for one initiative with its two merged
  aggregates; \<open>today\<close> is the \<^verbatim>\<open>datetime.now()\<close> of line 69. Every column assignment of
  the source is row-wise, so the row is computed at once.\<close>

definition score_row :: "int \<Rightarrow> (initiative \<times> (fval \<times> fval \<times> fval) option) \<times> (fval \<times> fval \<times> fval) option \<Rightarrow> scored" where
  "score_row today row =
     (let i = fst (fst row);
          (rev, cost, roi) = merged_cols (snd (fst row));
          (eff, qual, sat) = merged_cols (snd row);
          bu = fround (fdiv (budget_spent i) (budget_allocated i));
          bs = budget_points bu;
          dss = dt_days (today - start_date i);
          td = dt_days (target_end_date i - start_date i);
          tp = fdiv (Fin (of_int dss)) (Fin (of_int td));
          ts = time_points (status i) tp;
          fs = financial_points (fillna roi (Fin 0));
          os = operational_points eff qual sat;
          hs = fadd (Fin (of_int (bs + ts + fs))) os
      in initiative.extend i
           (scored.fields bu bs dss td tp ts rev cost roi fs eff qual sat os hs (health_status_of hs)))"

section \<open>Risk and prediction\<close>

definition predict_completion_date :: "'a scored_scheme \<Rightarrow> error + int" where
  "predict_completion_date row =
     (if status row = ''Completed'' then Inr (target_end_date row)
      else if fgt (time_progress row) (Fin 0) then
        (let estimated_total_days =
               fdiv (Fin (of_int (days_since_start row))) (py_max (time_progress row) (Fin (1 / 10)))
         in case timedelta_days estimated_total_days of
              Inl e \<Rightarrow> Inl e
            | Inr delta \<Rightarrow> Inr (start_date row + delta))
      else Inr (target_end_date row))"

text \<open>\<^verbatim>\<open>row.get('roi_percentage', 0)\<close> and \<^verbatim>\<open>row.get('employee_satisfaction', 8)\<close> find
  their column in every row, since the merges create it: the defaults are never taken and
  a missing aggregate is read as NaN.\<close>

definition identify_risk_factors :: "'a scored_scheme \<Rightarrow> string list" where
  "identify_risk_factors row =
     (if fgt (budget_utilization row) (float64 (11 / 10)) then [''Budget Overrun''] else []) @
     (if fgt (time_progress row) (Fin 1) \<and> status row \<noteq> ''Completed'' then [''Schedule Delay''] else []) @
     (if flt (scored.roi_percentage row) (Fin 5) then [''Low ROI''] else []) @
     (if flt (scored.employee_satisfaction row) (Fin 6) then [''Team Satisfaction''] else [])"

definition finish_row :: "scored \<Rightarrow> error + initiative_health" where
  "finish_row row =
     (case predict_completion_date row of
        Inl e \<Rightarrow> Inl e
      | Inr p \<Rightarrow> Inr (scored.extend row (initiative_health.fields p (identify_risk_factors row))))"

text \<open>\<^verbatim>\<open>DataFrame.apply(f, axis=1)\<close> with a function that may raise: the first exception
  ends the run.\<close>

fun apply_rows :: "('a \<Rightarrow> error + 'b) \<Rightarrow> 'a list \<Rightarrow> error + 'b list" where
  "apply_rows f [] = Inr []"
| "apply_rows f (x # xs) =
     (case f x of
        Inl e \<Rightarrow> Inl e
      | Inr y \<Rightarrow> (case apply_rows f xs of Inl e \<Rightarrow> Inl e | Inr ys \<Rightarrow> Inr (y # ys)))"

definition calculate_initiative_health_scores ::
  "int \<Rightarrow> initiative list \<Rightarrow> financial_metric list \<Rightarrow> operational_metric list \<Rightarrow> error + initiative_health list" where
  "calculate_initiative_health_scores today initiatives_df financial_df operational_df =
     (let merged1 = merge_left initiative.initiative_id initiatives_df (financial_agg financial_df);
          merged2 = merge_left (\<lambda>r. initiative.initiative_id (fst r)) merged1 (operational_agg operational_df)
      in apply_rows finish_row (map (score_row today) merged2))"

section \<open>Portfolio aggregator\<close>

text \<open>\<^verbatim>\<open>DataFrame.round(2)\<close> on a float: to the nearest hundredth, ties to even.\<close>

fun fround2 :: "fval \<Rightarrow> fval" where
  "fround2 (Fin q) = Fin (of_int (round_half_even (q * 100)) / 100)"
| "fround2 x = x"

text \<open>\<^verbatim>\<open>groupby('type').agg(...).round(2).to_dict()\<close>: per column, the value of each type.\<close>

definition type_performance_of :: "initiative_health list \<Rightarrow> type_performance" where
  "type_performance_of health_df =
     (let ks = remdups (map type health_df);
          grp = (\<lambda>k. filter (\<lambda>r. type r = k) health_df)
      in \<lparr>type_performance.health_score =
             map (\<lambda>k. (k, fround2 (fmean (map scored.health_score (grp k))))) ks,
          type_performance.budget_allocated =
             map (\<lambda>k. (k, fround2 (fsum (map initiative.budget_allocated (grp k))))) ks,
          type_performance.roi_percentage =
             map (\<lambda>k. (k, fround2 (fmean (map scored.roi_percentage (grp k))))) ks\<rparr>)"

text \<open>\<open>now\<close> is the \<^verbatim>\<open>datetime.now()\<close> of line 200. The sums are numpy float64 values, so
  the two divisions follow IEEE 754 and do not raise.\<close>

definition calculate_portfolio_metrics ::
  "int \<Rightarrow> initiative_health list \<Rightarrow> financial_metric list \<Rightarrow> portfolio_metrics" where
  "calculate_portfolio_metrics now health_df financial_df =
     (let allocated = fsum (map initiative.budget_allocated health_df);
          spent = fsum (map budget_spent health_df);
          total_revenue_impact = fsum (map financial_metric.revenue_impact financial_df);
          total_cost_reduction = fsum (map financial_metric.cost_reduction financial_df);
          impact = fadd total_revenue_impact total_cost_reduction;
          n = (\<lambda>s. length (filter (\<lambda>r. health_status r = s) health_df));
          at_risk = filter (\<lambda>r. flt (scored.health_score r) (Fin 50)) health_df;
          upcoming = filter (\<lambda>r. predicted_completion_date r \<le> now + 30 * day) health_df
      in \<lparr>total_initiatives = length health_df,
          active_initiatives =
            length (filter (\<lambda>r. initiative.status r \<in> set [''In Progress'', ''At Risk'']) health_df),
          completed_initiatives = length (filter (\<lambda>r. initiative.status r = ''Completed'') health_df),
          total_budget_allocated = allocated,
          total_budget_spent = spent,
          budget_utilization_rate = fmul (fdiv spent allocated) (Fin 100),
          total_financial_impact = impact,
          portfolio_roi = fmul (fsub (fdiv impact spent) (Fin 1)) (Fin 100),
          health_distribution =
            \<lparr>excellent = n ''Excellent'', good = n ''Good'',
             warning = n ''Warning'', critical = n ''Critical''\<rparr>,
          at_risk_initiatives =
            \<lparr>count = length at_risk,
             names = (if 0 < length at_risk then map name at_risk else []),
             total_budget =
               (if 0 < length at_risk then fsum (map initiative.budget_allocated at_risk) else Fin 0)\<rparr>,
          performance_by_type = type_performance_of health_df,
          upcoming_completions = \<lparr>count = length upcoming, names = map name upcoming\<rparr>\<rparr>)"

section \<open>Executive summary\<close>

text \<open>The counts are Python integers (from \<^verbatim>\<open>len\<close>), so the division of the completion
  rate raises on a zero divisor; the three rows built before it are lost with the
  exception.\<close>

definition create_executive_summary :: "portfolio_metrics \<Rightarrow> error + summary_row list" where
  "create_executive_summary m =
     (let roi = portfolio_roi m;
          row1 = \<lparr>metric_name = ''Portfolio ROI'',
                  current_value = Percent1 roi,
                  status = (if fgt roi (Fin 15) then ''Good'' else ''Warning''),
                  description = ''Return on Investment across all transformation initiatives'',
                  action_required =
                    (if fgt roi (Fin 15) then ''None'' else ''Review underperforming initiatives'')\<rparr>;
          budget_util = budget_utilization_rate m;
          row2 = \<lparr>metric_name = ''Budget Utilization'',
                  current_value = Percent1 budget_util,
                  status = (if fle (Fin 80) budget_util \<and> fle budget_util (Fin 100)
                            then ''Good'' else ''Warning''),
                  description = ''Overall budget utilization across portfolio'',
                  action_required =
                    (if fle (Fin 80) budget_util \<and> fle budget_util (Fin 100)
                     then ''None'' else ''Budget reallocation needed'')\<rparr>;
          at_risk_count = count (at_risk_initiatives m);
          row3 = \<lparr>metric_name = ''At-Risk Initiatives'',
                  current_value = Ratio at_risk_count (total_initiatives m),
                  status = (if (of_nat (total_initiatives m) :: rat) * (3 / 10) < of_nat at_risk_count
                            then ''Critical'' else ''Good''),
                  description = ''Number of initiatives requiring immediate attention'',
                  action_required =
                    (if 0 < at_risk_count then ''Immediate intervention required'' else ''None'')\<rparr>
      in if total_initiatives m = 0 then Inl ZeroDivisionError
         else
           (let completion_rate =
                  (of_nat (completed_initiatives m) :: rat) / of_nat (total_initiatives m) * 100;
                row4 = \<lparr>metric_name = ''Completion Rate'',
                        current_value = Percent1 (Fin completion_rate),
                        status = (if 60 < completion_rate then ''Good'' else ''Warning''),
                        description = ''Percentage of initiatives successfully completed'',
                        action_required =
                          (if completion_rate < 60 then ''Accelerate delivery'' else ''None'')\<rparr>
            in Inr [row1, row2, row3, row4]))"

section \<open>Properties of the binary64 rounding\<close>

text \<open>\<open>floor_log2\<close> finds the binary exponent of a positive rational, so in the normal
  range \<open>float64 x\<close> is the multiple \<open>m * 2 ^ (k - 52)\<close> whose integer \<open>m\<close> lies within a
  half of \<open>x / 2 ^ (k - 52)\<close>. The values of the literals of the budget bands follow;
  they are the ones Python prints for \<^verbatim>\<open>(0.8).as_integer_ratio()\<close> and the like.\<close>

lemma pow2_powi: "pow2 e = 2 powi e"
  by (simp add: pow2_def power_int_def power_inverse inverse_eq_divide power_one_over)

lemma pow2_pos: "0 < pow2 e"
  by (simp add: pow2_powi)

lemma pow2_less_iff: "pow2 j < pow2 k \<longleftrightarrow> j < k"
proof
  assume "j < k"
  then show "pow2 j < pow2 k"
    unfolding pow2_powi by (intro power_int_strict_increasing) auto
next
  assume l: "pow2 j < pow2 k"
  show "j < k"
  proof (rule ccontr)
    assume "\<not> j < k"
    then have "k \<le> j" by simp
    then have "pow2 k \<le> pow2 j"
      unfolding pow2_powi by (intro power_int_increasing) auto
    with l show False by simp
  qed
qed

lemma pow2_unique:
  assumes "pow2 j \<le> a" "a < pow2 (j + 1)" "pow2 k \<le> a" "a < pow2 (k + 1)"
  shows "j = k"
proof -
  have "pow2 j < pow2 (k + 1)" using assms by simp
  then have 1: "j < k + 1" by (simp add: pow2_less_iff)
  have "pow2 k < pow2 (j + 1)" using assms by simp
  then have 2: "k < j + 1" by (simp add: pow2_less_iff)
  from 1 2 show ?thesis by simp
qed

lemma of_int_bitlen_bounds:
  assumes "0 < p"
  shows "pow2 (bitlen p - 1) \<le> of_int p" "of_int p < pow2 (bitlen p)"
proof -
  from assms have b: "1 \<le> bitlen p" by (auto simp: bitlen_alt_def)
  from bitlen_bounds[OF assms] have 1: "2 ^ nat (bitlen p - 1) \<le> p" and 2: "p < 2 ^ nat (bitlen p)"
    by auto
  have "(of_int (2 ^ nat (bitlen p - 1)) :: rat) \<le> of_int p"
    using 1 by (simp only: of_int_le_iff)
  then show "pow2 (bitlen p - 1) \<le> of_int p"
    using b by (simp add: pow2_def)
  have "(of_int p :: rat) < of_int (2 ^ nat (bitlen p))"
    using 2 by (simp only: of_int_less_iff)
  then show "of_int p < pow2 (bitlen p)"
    using b by (simp add: pow2_def)
qed

lemma floor_log2_bounds:
  assumes "0 < a"
  shows "pow2 (floor_log2 a) \<le> a \<and> a < pow2 (floor_log2 a + 1)"
proof -
  obtain p q where pq: "quotient_of a = (p, q)" by (cases "quotient_of a")
  then have q: "0 < q" by (rule quotient_of_denom_pos)
  have a: "a = of_int p / of_int q" using pq by (rule quotient_of_div)
  with assms q have p: "0 < p" by (simp add: zero_less_divide_iff)
  let ?e = "bitlen p - bitlen q"
  note bp = of_int_bitlen_bounds[OF p] and bq = of_int_bitlen_bounds[OF q]
  have qpos: "(0::rat) < of_int q" using q by simp
  have hi: "a < pow2 (?e + 1)"
  proof -
    have "a < pow2 (bitlen p) / of_int q"
      unfolding a using bp(2) qpos by (simp add: divide_strict_right_mono)
    also have "\<dots> \<le> pow2 (bitlen p) / pow2 (bitlen q - 1)"
      using bq(1) pow2_pos[of "bitlen q - 1"] pow2_pos[of "bitlen p"]
      by (simp add: frac_le)
    also have "\<dots> = pow2 (?e + 1)"
      unfolding pow2_powi by (simp flip: power_int_diff add: algebra_simps)
    finally show ?thesis .
  qed
  have lo: "pow2 (?e - 1) \<le> a"
  proof -
    have "pow2 (?e - 1) = pow2 (bitlen p - 1) / pow2 (bitlen q)"
      unfolding pow2_powi by (simp flip: power_int_diff add: algebra_simps)
    also have "\<dots> \<le> of_int p / pow2 (bitlen q)"
      using bp(1) pow2_pos[of "bitlen q"] by (simp add: divide_right_mono)
    also have "\<dots> \<le> of_int p / of_int q"
      using bq(2) qpos p by (simp add: frac_le)
    finally show ?thesis unfolding a .
  qed
  show ?thesis
  proof (cases "pow2 ?e \<le> a")
    case True
    then have "floor_log2 a = ?e" by (simp add: floor_log2_def pq)
    with True hi show ?thesis by simp
  next
    case False
    then have "floor_log2 a = ?e - 1" by (simp add: floor_log2_def pq)
    with False lo show ?thesis by simp
  qed
qed

lemma floor_log2_eqI:
  assumes "pow2 k \<le> a" "a < pow2 (k + 1)"
  shows "floor_log2 a = k"
proof -
  have "0 < a" using assms(1) pow2_pos[of k] by simp
  from floor_log2_bounds[OF this] assms show ?thesis
    using pow2_unique by blast
qed

lemma round_half_even_eqI:
  assumes "of_int m - 1 / 2 < x" "x < of_int m + 1 / 2"
  shows "round_half_even x = m"
proof (cases "of_int m \<le> x")
  case True
  then have "\<lfloor>x\<rfloor> = m" using assms by (simp add: floor_unique)
  with assms show ?thesis by (simp add: round_half_even_def Let_def)
next
  case False
  then have "\<lfloor>x\<rfloor> = m - 1" using assms by (simp add: floor_unique)
  with assms False show ?thesis by (simp add: round_half_even_def Let_def)
qed

lemma float64_eqI:
  assumes x: "pow2 k \<le> x" "x < pow2 (k + 1)"
    and k: "- 1022 \<le> k" "k \<le> 1022"
    and m: "of_int m - 1 / 2 < x / pow2 (k - 52)" "x / pow2 (k - 52) < of_int m + 1 / 2"
  shows "float64 x = Fin (of_int m * pow2 (k - 52))"
proof -
  have pos: "0 < x" using x(1) pow2_pos[of k] by simp
  have fl: "floor_log2 \<bar>x\<bar> = k" using pos x by (simp add: floor_log2_eqI)
  have e: "max (floor_log2 \<bar>x\<bar> - 52) (- 1074) = k - 52" using fl k by simp
  have r: "round_half_even (\<bar>x\<bar> / pow2 (k - 52)) = m"
    using pos m by (simp add: round_half_even_eqI)
  have "x / pow2 (k - 52) < pow2 (k + 1) / pow2 (k - 52)"
    using x(2) pow2_pos[of "k - 52"] by (simp add: divide_strict_right_mono)
  also have "\<dots> = 2 ^ 53"
    unfolding pow2_powi by (simp flip: power_int_diff)
  finally have "of_int m - 1 / 2 < (2 ^ 53 :: rat)" using m(1) by simp
  then have "of_int m < (of_int (2 ^ 53 + 1) :: rat)" by simp
  then have "m < 2 ^ 53 + 1" by (simp only: of_int_less_iff)
  then have "(of_int m :: rat) \<le> 2 ^ 53"
    by (metis add.commute of_int_le_iff of_int_numeral of_int_power zle_add1_eq_le zless_add1_eq)
  then have "of_int m * pow2 (k - 52) \<le> 2 ^ 53 * pow2 (k - 52)"
    using pow2_pos[of "k - 52"] by simp
  also have "\<dots> = pow2 (k + 1)"
    unfolding pow2_powi using power_int_add[of "2::rat" 53 "k - 52"] by (simp add: add.commute)
  also have "\<dots> < pow2 1024"
    using k by (simp add: pow2_less_iff)
  finally have y: "\<not> pow2 1024 \<le> of_int m * pow2 (k - 52)" by simp
  show ?thesis
    unfolding float64_def Let_def e r using pos y by simp
qed

lemma float64_values:
  "float64 (4 / 5) = Fin (3602879701896397 / 4503599627370496)"
  "float64 (3 / 5) = Fin (5404319552844595 / 9007199254740992)"
  "float64 (2 / 5) = Fin (3602879701896397 / 9007199254740992)"
  "float64 (11 / 10) = Fin (2476979795053773 / 2251799813685248)"
  "float64 (6 / 5) = Fin (5404319552844595 / 4503599627370496)"
  "float64 (17 / 20) = Fin (7656119366529843 / 9007199254740992)"
  "float64 (13 / 10) = Fin (5854679515581645 / 4503599627370496)"
  "float64 (1 / 2) = Fin (1 / 2)"
  "float64 (21 / 20) = Fin (4728779608739021 / 4503599627370496)"
  "float64 (9 / 10) = Fin (8106479329266893 / 9007199254740992)"
  "float64 (2200000000000010 / 2000000000000009) = Fin (2476979795053773 / 2251799813685248)"
  "float64 (7460902880904479 / 6782638982640435) = Fin (2476979795053773 / 2251799813685248)"
  using float64_eqI[of "- 1" "4 / 5" 7205759403792794]
    float64_eqI[of "- 1" "3 / 5" 5404319552844595]
    float64_eqI[of "- 2" "2 / 5" 7205759403792794]
    float64_eqI[of 0 "11 / 10" 4953959590107546]
    float64_eqI[of 0 "6 / 5" 5404319552844595]
    float64_eqI[of "- 1" "17 / 20" 7656119366529843]
    float64_eqI[of 0 "13 / 10" 5854679515581645]
    float64_eqI[of "- 1" "1 / 2" 4503599627370496]
    float64_eqI[of 0 "21 / 20" 4728779608739021]
    float64_eqI[of "- 1" "9 / 10" 8106479329266893]
    float64_eqI[of 0 "2200000000000010 / 2000000000000009" 4953959590107546]
    float64_eqI[of 0 "7460902880904479 / 6782638982640435" 4953959590107546]
  by (simp_all add: pow2_def)

lemma float64_literals:
  "float64 (8 / 10) = Fin (3602879701896397 / 4503599627370496)"
  "float64 (6 / 10) = Fin (5404319552844595 / 9007199254740992)"
  "float64 (4 / 10) = Fin (3602879701896397 / 9007199254740992)"
  "float64 (11 / 10) = Fin (2476979795053773 / 2251799813685248)"
  "float64 (12 / 10) = Fin (5404319552844595 / 4503599627370496)"
  using float64_values by simp_all

section \<open>Properties of the merge and of the row computation\<close>

text \<open>The grouped tables have one row per identifier, so a left merge keeps the
  initiatives one to one and in order; the prediction never raises, since the elapsed
  days are an integer and the divisor is at least 0.1.\<close>

lemma financial_agg_distinct: "distinct (map fst (financial_agg df))"
  by (simp add: financial_agg_def comp_def Let_def)

lemma operational_agg_distinct: "distinct (map fst (operational_agg df))"
  by (simp add: operational_agg_def comp_def Let_def)

lemma filter_key_distinct:
  "distinct (map fst rs) \<Longrightarrow>
   filter (\<lambda>r. fst r = k) rs = (case map_of rs k of None \<Rightarrow> [] | Some v \<Rightarrow> [(k, v)])"
proof (induction rs)
  case Nil
  then show ?case by simp
next
  case (Cons r rs)
  then show ?case
    by (cases r) (auto split: option.splits simp: map_of_eq_None_iff image_iff dest: map_of_SomeD)
qed

lemma merge_left_distinct:
  assumes "distinct (map fst rs)"
  shows "merge_left key ls rs = map (\<lambda>l. (l, map_of rs (key l))) ls"
proof (induction ls)
  case Nil
  show ?case by (simp add: merge_left_def)
next
  case (Cons l ls)
  then show ?case
    using filter_key_distinct[OF assms, of "key l"]
    by (auto simp: merge_left_def split: option.splits)
qed

lemma estimate_finite:
  assumes "fgt tp (Fin 0)"
  shows "\<exists>d. fdiv (Fin x) (py_max tp (Fin (1 / 10))) = Fin d"
  using assms by (cases tp) (auto simp: py_max_def fgt_def)

lemma predict_completion_date_total: "\<exists>p. predict_completion_date row = Inr p"
proof (cases "initiative.status row \<noteq> ''Completed'' \<and> fgt (time_progress row) (Fin 0)")
  case True
  then obtain d where "fdiv (Fin (of_int (days_since_start row))) (py_max (time_progress row) (Fin (1 / 10))) = Fin d"
    using estimate_finite by blast
  with True show ?thesis by (simp add: predict_completion_date_def)
next
  case False
  then show ?thesis by (auto simp: predict_completion_date_def)
qed

lemma finish_row_total: "\<exists>r. finish_row s = Inr r"
  using predict_completion_date_total[of s] by (auto simp: finish_row_def)

lemma apply_rows_total:
  assumes "\<And>x. \<exists>y. f x = Inr y"
  shows "\<exists>ys. apply_rows f xs = Inr ys \<and> list_all2 (\<lambda>x y. f x = Inr y) xs ys"
proof (induction xs)
  case Nil
  show ?case by simp
next
  case (Cons x xs)
  obtain y where "f x = Inr y" using assms by blast
  with Cons show ?case by auto
qed

lemma health_rows:
  "\<exists>rows. calculate_initiative_health_scores today inits fin ops = Inr rows \<and>
     length rows = length inits \<and>
     (\<forall>r\<in>set rows. \<exists>i fa oa. i \<in> set inits \<and> finish_row (score_row today ((i, fa), oa)) = Inr r)"
proof -
  let ?m = "map (\<lambda>l. (l, map_of (operational_agg ops) (initiative.initiative_id (fst l))))
              (map (\<lambda>l. (l, map_of (financial_agg fin) (initiative.initiative_id l))) inits)"
  have m: "merge_left (\<lambda>r. initiative.initiative_id (fst r))
             (merge_left initiative.initiative_id inits (financial_agg fin)) (operational_agg ops) = ?m"
    by (simp only: merge_left_distinct[OF financial_agg_distinct] merge_left_distinct[OF operational_agg_distinct])
  obtain rows where rows: "apply_rows finish_row (map (score_row today) ?m) = Inr rows"
    and all2: "list_all2 (\<lambda>x y. finish_row x = Inr y) (map (score_row today) ?m) rows"
    using apply_rows_total[of finish_row, OF finish_row_total] by blast
  have 1: "calculate_initiative_health_scores today inits fin ops = Inr rows"
    using rows by (simp only: calculate_initiative_health_scores_def Let_def m)
  have 2: "length rows = length inits"
    using list_all2_lengthD[OF all2] by simp
  have 3: "\<exists>i fa oa. i \<in> set inits \<and> finish_row (score_row today ((i, fa), oa)) = Inr r" if "r \<in> set rows" for r
  proof -
    from that obtain n where n: "n < length rows" "rows ! n = r" by (auto simp: in_set_conv_nth)
    with all2 2 have "finish_row (map (score_row today) ?m ! n) = Inr r"
      by (auto simp: list_all2_conv_all_nth)
    with n 2 have "finish_row (score_row today ((inits ! n, map_of (financial_agg fin) (initiative.initiative_id (inits ! n))),
        map_of (operational_agg ops) (initiative.initiative_id (inits ! n)))) = Inr r"
      by simp
    moreover have "inits ! n \<in> set inits" using n 2 by simp
    ultimately show ?thesis by blast
  qed
  from 1 2 3 show ?thesis by blast
qed

lemma predict_completion_date_extend:
  "predict_completion_date (scored.extend s m) = predict_completion_date s"
  by (simp add: predict_completion_date_def scored.defs split: sum.splits)

lemma identify_risk_factors_extend:
  "identify_risk_factors (scored.extend s m) = identify_risk_factors s"
  by (simp add: identify_risk_factors_def scored.defs)

lemma finish_score_row:
  assumes "finish_row (score_row today ((i, fa), oa)) = Inr r"
  shows "start_date r = start_date i"
    and "target_end_date r = target_end_date i"
    and "budget_utilization r = fround (fdiv (budget_spent r) (initiative.budget_allocated r))"
    and "budget_score r = budget_points (budget_utilization r)"
    and "days_since_start r = dt_days (today - start_date r)"
    and "total_duration r = dt_days (target_end_date r - start_date r)"
    and "time_progress r = fdiv (Fin (of_int (days_since_start r))) (Fin (of_int (total_duration r)))"
    and "time_score r = time_points (initiative.status r) (time_progress r)"
    and "financial_score r = financial_points (fillna (scored.roi_percentage r) (Fin 0))"
    and "operational_score r =
           operational_points (scored.efficiency_gain_percentage r) (scored.quality_score r) (scored.employee_satisfaction r)"
    and "scored.health_score r =
           fadd (Fin (of_int (budget_score r + time_score r + financial_score r))) (operational_score r)"
    and "health_status r = health_status_of (scored.health_score r)"
    and "predict_completion_date r = Inr (predicted_completion_date r)"
    and "risk_factors r = identify_risk_factors r"
proof -
  let ?s = "score_row today ((i, fa), oa)"
  obtain p where p: "predict_completion_date ?s = Inr p"
    using predict_completion_date_total by blast
  with assms have r: "r = scored.extend ?s (initiative_health.fields p (identify_risk_factors ?s))"
    by (simp add: finish_row_def)
  show "predict_completion_date r = Inr (predicted_completion_date r)"
    unfolding r predict_completion_date_extend p by (simp add: scored.defs initiative_health.defs)
  show "risk_factors r = identify_risk_factors r"
    unfolding r identify_risk_factors_extend by (simp add: scored.defs initiative_health.defs)
  show "start_date r = start_date i" "target_end_date r = target_end_date i"
    "budget_utilization r = fround (fdiv (budget_spent r) (initiative.budget_allocated r))"
    "budget_score r = budget_points (budget_utilization r)"
    "days_since_start r = dt_days (today - start_date r)"
    "total_duration r = dt_days (target_end_date r - start_date r)"
    "time_progress r = fdiv (Fin (of_int (days_since_start r))) (Fin (of_int (total_duration r)))"
    "time_score r = time_points (initiative.status r) (time_progress r)"
    "financial_score r = financial_points (fillna (scored.roi_percentage r) (Fin 0))"
    "operational_score r =
           operational_points (scored.efficiency_gain_percentage r) (scored.quality_score r) (scored.employee_satisfaction r)"
    "scored.health_score r =
           fadd (Fin (of_int (budget_score r + time_score r + financial_score r))) (operational_score r)"
    "health_status r = health_status_of (scored.health_score r)"
    unfolding r
    by (simp_all add: score_row_def Let_def split_def initiative.defs scored.defs initiative_health.defs)
qed

lemma budget_points_range: "0 \<le> budget_points x \<and> budget_points x \<le> 25"
  by (simp add: budget_points_def)

lemma time_points_range: "0 \<le> time_points st tp \<and> time_points st tp \<le> 25"
  by (simp add: time_points_def)

lemma financial_points_range: "0 \<le> financial_points x \<and> financial_points x \<le> 30"
  by (simp add: financial_points_def)

lemma clamp_range: "\<exists>q. py_min (Fin 20) (py_max (Fin 0) x) = Fin q \<and> 0 \<le> q \<and> q \<le> 20"
  by (cases x) (auto simp: py_min_def py_max_def fgt_def)

lemma operational_points_range: "\<exists>q. operational_points e ql s = Fin q \<and> 0 \<le> q \<and> q \<le> 20"
  unfolding operational_points_def Let_def by (rule clamp_range)

lemma health_score_finite:
  assumes "finish_row (score_row today ((i, fa), oa)) = Inr r"
  shows "\<exists>q. scored.health_score r = Fin q"
proof -
  note facts = finish_score_row[OF assms]
  obtain q where "operational_score r = Fin q"
    using operational_points_range facts(10) by metis
  with facts(11) show ?thesis by simp
qed

lemma budget_points_bands:
  "(budget_points u = 25 \<longleftrightarrow> fle (float64 (8 / 10)) u \<and> fle u (Fin 1)) \<and>
   (budget_points u = 20 \<longleftrightarrow>
      fle (float64 (6 / 10)) u \<and> flt u (float64 (8 / 10)) \<or>
      flt (Fin 1) u \<and> fle u (float64 (11 / 10))) \<and>
   (budget_points u = 10 \<longleftrightarrow>
      fle (float64 (4 / 10)) u \<and> flt u (float64 (6 / 10)) \<or>
      flt (float64 (11 / 10)) u \<and> fle u (float64 (12 / 10))) \<and>
   (budget_points u = 0 \<longleftrightarrow> \<not> (fle (float64 (4 / 10)) u \<and> fle u (float64 (12 / 10)))) \<and>
   budget_points u \<in> {0, 10, 20, 25}"
  unfolding budget_points_def float64_literals by (cases u) auto

lemma health_status_of_bands:
  "(health_status_of (Fin q) = ''Excellent'' \<longleftrightarrow> fge (Fin q) (Fin 80)) \<and>
   (health_status_of (Fin q) = ''Good'' \<longleftrightarrow> fge (Fin q) (Fin 65) \<and> flt (Fin q) (Fin 80)) \<and>
   (health_status_of (Fin q) = ''Warning'' \<longleftrightarrow> fge (Fin q) (Fin 50) \<and> flt (Fin q) (Fin 65)) \<and>
   (health_status_of (Fin q) = ''Critical'' \<longleftrightarrow> flt (Fin q) (Fin 50))"
  by (auto simp: health_status_of_def fge_def)

lemma zero_duration_progress:
  "fdiv (Fin (of_int (dt_days (today - s)))) (Fin (of_int (dt_days (s - s)))) =
     (if s \<le> today then (if dt_days (today - s) = 0 then NaN else PInf) else NInf)"
proof (cases "s \<le> today")
  case True
  then have "0 \<le> (today - s) div day"
    by (simp add: day_def pos_imp_zdiv_nonneg_iff)
  with True show ?thesis
    by (auto simp: dt_days_def)
next
  case False
  then have "(today - s) div day < 0"
    by (simp add: day_def div_neg_pos_less0)
  with False show ?thesis
    by (auto simp: dt_days_def)
qed

lemma fle_not_fgt: "fle a b \<Longrightarrow> \<not> fgt a b"
  by (cases a; cases b) (auto simp: fgt_def)

lemmas scorer_defs =
  calculate_initiative_health_scores_def merge_left_def financial_agg_def operational_agg_def
  fsum_def fmean_def score_row_def merged_cols_def finish_row_def predict_completion_date_def
  identify_risk_factors_def initiative.defs scored.defs initiative_health.defs Let_def
  dt_days_def day_def budget_points_def time_points_def financial_points_def
  operational_points_def health_status_of_def fillna_def py_min_def py_max_def fgt_def fge_def
  round_half_even_def float64_values

lemma critical_is_at_risk:
  assumes "finish_row (score_row today ((i, fa), oa)) = Inr r"
  shows "(health_status r = ''Critical'') = flt (scored.health_score r) (Fin 50)"
proof -
  obtain q where q: "scored.health_score r = Fin q"
    using health_score_finite[OF assms] by blast
  show ?thesis
    unfolding finish_score_row(12)[OF assms] q using health_status_of_bands[of q] by blast
qed

lemmas portfolio_defs =
  calculate_portfolio_metrics_def type_performance_of_def fsum_def fmean_def fsub_def Let_def day_def

section \<open>Health score\<close>

text \<open>C1. Every row produced by \<^verbatim>\<open>calculate_initiative_health_scores\<close> has a health
  score that is the sum of its budget, time, financial and operational scores, each
  sub-score lies in its band (0-25, 0-25, 0-30, 0-20), and the health score lies between 0
  and 100. The scorer returns rows for every input.\<close>

theorem health_score_sum_in_range:
  "\<exists>rows. calculate_initiative_health_scores today inits fin ops = Inr rows \<and>
     (\<forall>r\<in>set rows.
        scored.health_score r =
          fadd (Fin (of_int (budget_score r + time_score r + financial_score r))) (operational_score r) \<and>
        0 \<le> budget_score r \<and> budget_score r \<le> 25 \<and>
        0 \<le> time_score r \<and> time_score r \<le> 25 \<and>
        0 \<le> financial_score r \<and> financial_score r \<le> 30 \<and>
        fle (Fin 0) (operational_score r) \<and> fle (operational_score r) (Fin 20) \<and>
        fle (Fin 0) (scored.health_score r) \<and> fle (scored.health_score r) (Fin 100))"
proof -
  obtain rows where rows: "calculate_initiative_health_scores today inits fin ops = Inr rows"
    and src: "\<forall>r\<in>set rows. \<exists>i fa oa. i \<in> set inits \<and> finish_row (score_row today ((i, fa), oa)) = Inr r"
    using health_rows by blast
  have "scored.health_score r =
          fadd (Fin (of_int (budget_score r + time_score r + financial_score r))) (operational_score r) \<and>
        0 \<le> budget_score r \<and> budget_score r \<le> 25 \<and>
        0 \<le> time_score r \<and> time_score r \<le> 25 \<and>
        0 \<le> financial_score r \<and> financial_score r \<le> 30 \<and>
        fle (Fin 0) (operational_score r) \<and> fle (operational_score r) (Fin 20) \<and>
        fle (Fin 0) (scored.health_score r) \<and> fle (scored.health_score r) (Fin 100)"
    if r: "r \<in> set rows" for r
  proof -
    from src r obtain i fa oa where "finish_row (score_row today ((i, fa), oa)) = Inr r"
      by blast
    note facts = finish_score_row[OF this]
    obtain q where q: "operational_score r = Fin q" "0 \<le> q" "q \<le> 20"
      using operational_points_range facts(10) by metis
    have b: "0 \<le> budget_score r \<and> budget_score r \<le> 25"
      using budget_points_range facts(4) by simp
    have t: "0 \<le> time_score r \<and> time_score r \<le> 25"
      using time_points_range facts(8) by simp
    have f: "0 \<le> financial_score r \<and> financial_score r \<le> 30"
      using financial_points_range facts(9) by simp
    have h: "scored.health_score r = Fin (of_int (budget_score r + time_score r + financial_score r) + q)"
      using facts(11) q by simp
    have lo: "(0::rat) \<le> of_int (budget_score r + time_score r + financial_score r)"
      using b t f by simp
    have "budget_score r + time_score r + financial_score r \<le> 80"
      using b t f by linarith
    then have hi: "(of_int (budget_score r + time_score r + financial_score r) :: rat) \<le> 80"
      by (metis of_int_le_iff of_int_numeral)
    show ?thesis
      using facts(11) b t f q lo hi unfolding h by simp
  qed
  with rows show ?thesis by blast
qed

theorem health_score_sum_in_range_witness:
  "map_sum id (map (\<lambda>r. (budget_score r, time_score r, financial_score r, operational_score r,
       scored.health_score r)))
     (calculate_initiative_health_scores (50 * day)
        [\<lparr>initiative.initiative_id = ''a'', name = ''CRM Migration'', type = ''Digital'', start_date = 0,
          target_end_date = 100 * day, budget_allocated = Fin 100000, budget_spent = Fin 85000,
          status = ''Completed'', owner = ''o'', description = ''d''\<rparr>]
        [\<lparr>financial_metric.initiative_id = ''a'', date = 0, financial_metric.revenue_impact = Fin 10,
          financial_metric.cost_reduction = Fin 5, financial_metric.roi_percentage = Fin 22,
          budget_burn_rate = Fin 1, forecast_completion_cost = Fin 1\<rparr>]
        [\<lparr>operational_metric.initiative_id = ''a'', operational_metric.date = 0,
          operational_metric.efficiency_gain_percentage = Fin 10, process_cycle_time = Fin 1,
          operational_metric.quality_score = Fin 90, operational_metric.employee_satisfaction = Fin 8,
          customer_satisfaction = Fin 8\<rparr>])
   = Inr [(25, 25, 30, Fin 20, Fin 100)]"
  using health_score_sum_in_range [of "50 * day"
        "[\<lparr>initiative.initiative_id = ''a'', name = ''CRM Migration'', type = ''Digital'', start_date = 0,
          target_end_date = 100 * day, budget_allocated = Fin 100000, budget_spent = Fin 85000,
          status = ''Completed'', owner = ''o'', description = ''d''\<rparr>]"
        "[\<lparr>financial_metric.initiative_id = ''a'', date = 0, financial_metric.revenue_impact = Fin 10,
          financial_metric.cost_reduction = Fin 5, financial_metric.roi_percentage = Fin 22,
          budget_burn_rate = Fin 1, forecast_completion_cost = Fin 1\<rparr>]"
        "[\<lparr>operational_metric.initiative_id = ''a'', operational_metric.date = 0,
          operational_metric.efficiency_gain_percentage = Fin 10, process_cycle_time = Fin 1,
          operational_metric.quality_score = Fin 90, operational_metric.employee_satisfaction = Fin 8,
          customer_satisfaction = Fin 8\<rparr>]"]
  by (simp add: scorer_defs)

section \<open>Budget score\<close>

text \<open>C9. In every produced row the budget utilization is the binary64 quotient of spent
  over allocated, and the budget score is 25 exactly when the utilization is in
  [0.8, 1.0], 20 exactly when it is in [0.6, 0.8) or (1.0, 1.1], 10 exactly when it is in
  [0.4, 0.6) or (1.1, 1.2], and 0 exactly when it is outside [0.4, 1.2] (which includes
  NaN); no other score occurs. The edges are the binary64 values of the literals, so a
  quotient that lies above 11/10 and rounds to the literal 1.1 scores 20.\<close>

theorem budget_score_piecewise:
  "\<exists>rows. calculate_initiative_health_scores today inits fin ops = Inr rows \<and>
     (\<forall>r\<in>set rows.
        budget_utilization r = fround (fdiv (budget_spent r) (initiative.budget_allocated r)) \<and>
        (budget_score r = 25 \<longleftrightarrow>
           fle (float64 (8 / 10)) (budget_utilization r) \<and> fle (budget_utilization r) (Fin 1)) \<and>
        (budget_score r = 20 \<longleftrightarrow>
           fle (float64 (6 / 10)) (budget_utilization r) \<and>
           flt (budget_utilization r) (float64 (8 / 10)) \<or>
           flt (Fin 1) (budget_utilization r) \<and> fle (budget_utilization r) (float64 (11 / 10))) \<and>
        (budget_score r = 10 \<longleftrightarrow>
           fle (float64 (4 / 10)) (budget_utilization r) \<and>
           flt (budget_utilization r) (float64 (6 / 10)) \<or>
           flt (float64 (11 / 10)) (budget_utilization r) \<and>
           fle (budget_utilization r) (float64 (12 / 10))) \<and>
        (budget_score r = 0 \<longleftrightarrow>
           \<not> (fle (float64 (4 / 10)) (budget_utilization r) \<and>
              fle (budget_utilization r) (float64 (12 / 10)))) \<and>
        budget_score r \<in> {0, 10, 20, 25})"
proof -
  obtain rows where rows: "calculate_initiative_health_scores today inits fin ops = Inr rows"
    and src: "\<forall>r\<in>set rows. \<exists>i fa oa. i \<in> set inits \<and> finish_row (score_row today ((i, fa), oa)) = Inr r"
    using health_rows by blast
  have "budget_utilization r = fround (fdiv (budget_spent r) (initiative.budget_allocated r)) \<and>
        (budget_score r = 25 \<longleftrightarrow>
           fle (float64 (8 / 10)) (budget_utilization r) \<and> fle (budget_utilization r) (Fin 1)) \<and>
        (budget_score r = 20 \<longleftrightarrow>
           fle (float64 (6 / 10)) (budget_utilization r) \<and>
           flt (budget_utilization r) (float64 (8 / 10)) \<or>
           flt (Fin 1) (budget_utilization r) \<and> fle (budget_utilization r) (float64 (11 / 10))) \<and>
        (budget_score r = 10 \<longleftrightarrow>
           fle (float64 (4 / 10)) (budget_utilization r) \<and>
           flt (budget_utilization r) (float64 (6 / 10)) \<or>
           flt (float64 (11 / 10)) (budget_utilization r) \<and>
           fle (budget_utilization r) (float64 (12 / 10))) \<and>
        (budget_score r = 0 \<longleftrightarrow>
           \<not> (fle (float64 (4 / 10)) (budget_utilization r) \<and>
              fle (budget_utilization r) (float64 (12 / 10)))) \<and>
        budget_score r \<in> {0, 10, 20, 25}"
    if r: "r \<in> set rows" for r
  proof -
    from src r obtain i fa oa where "finish_row (score_row today ((i, fa), oa)) = Inr r"
      by blast
    note facts = finish_score_row[OF this]
    show ?thesis
      unfolding facts(4) using facts(3) budget_points_bands[of "budget_utilization r"] by blast
  qed
  with rows show ?thesis by blast
qed

theorem budget_score_piecewise_witness:
  "map_sum id (map (\<lambda>r. (budget_utilization r, budget_score r, ''Budget Overrun'' \<in> set (risk_factors r))))
     (calculate_initiative_health_scores (150 * day)
       [\<lparr>initiative.initiative_id = ''a'', name = ''CRM Migration'', type = ''Digital'',
         start_date = 0, target_end_date = 100 * day,
         budget_allocated = Fin 100000, budget_spent = Fin 85000,
         status = ''Completed'', owner = ''o'', description = ''d''\<rparr>,
        \<lparr>initiative.initiative_id = ''b'', name = ''Supply Chain'', type = ''Operational'',
         start_date = 0, target_end_date = 100 * day,
         budget_allocated = Fin 100000, budget_spent = Fin 130000,
         status = ''In Progress'', owner = ''o'', description = ''d''\<rparr>,
        \<lparr>initiative.initiative_id = ''c'', name = ''Customer Portal'', type = ''Digital'',
         start_date = 200 * day, target_end_date = 300 * day,
         budget_allocated = Fin 100000, budget_spent = Fin 50000,
         status = ''Planning'', owner = ''o'', description = ''d''\<rparr>,
        \<lparr>initiative.initiative_id = ''d'', name = ''Skills Training'', type = ''HR'',
         start_date = 145 * day, target_end_date = 245 * day,
         budget_allocated = Fin 100000, budget_spent = Fin 105000,
         status = ''In Progress'', owner = ''o'', description = ''d''\<rparr>,
        \<lparr>initiative.initiative_id = ''e'', name = ''Data Analytics'', type = ''Digital'',
         start_date = 0, target_end_date = 100 * day,
         budget_allocated = Fin 2000000000000009, budget_spent = Fin 2200000000000010,
         status = ''Completed'', owner = ''o'', description = ''d''\<rparr>,
        \<lparr>initiative.initiative_id = ''f'', name = ''Quality Management'', type = ''Financial'',
         start_date = 0, target_end_date = 100 * day,
         budget_allocated = Fin (6782638982640435 / 4294967296), budget_spent = Fin (7460902880904479 / 4294967296),
         status = ''Completed'', owner = ''o'', description = ''d''\<rparr>]
       []
       [])
   = Inr [(Fin (7656119366529843 / 9007199254740992), 25, False),
          (Fin (5854679515581645 / 4503599627370496), 0, True),
          (Fin (1 / 2), 10, False),
          (Fin (4728779608739021 / 4503599627370496), 20, False),
          (Fin (2476979795053773 / 2251799813685248), 20, False),
          (Fin (2476979795053773 / 2251799813685248), 20, False)]"
  using budget_score_piecewise [of "150 * day"
      "[\<lparr>initiative.initiative_id = ''a'', name = ''CRM Migration'', type = ''Digital'',
         start_date = 0, target_end_date = 100 * day,
         budget_allocated = Fin 100000, budget_spent = Fin 85000,
         status = ''Completed'', owner = ''o'', description = ''d''\<rparr>,
        \<lparr>initiative.initiative_id = ''b'', name = ''Supply Chain'', type = ''Operational'',
         start_date = 0, target_end_date = 100 * day,
         budget_allocated = Fin 100000, budget_spent = Fin 130000,
         status = ''In Progress'', owner = ''o'', description = ''d''\<rparr>,
        \<lparr>initiative.initiative_id = ''c'', name = ''Customer Portal'', type = ''Digital'',
         start_date = 200 * day, target_end_date = 300 * day,
         budget_allocated = Fin 100000, budget_spent = Fin 50000,
         status = ''Planning'', owner = ''o'', description = ''d''\<rparr>,
        \<lparr>initiative.initiative_id = ''d'', name = ''Skills Training'', type = ''HR'',
         start_date = 145 * day, target_end_date = 245 * day,
         budget_allocated = Fin 100000, budget_spent = Fin 105000,
         status = ''In Progress'', owner = ''o'', description = ''d''\<rparr>,
        \<lparr>initiative.initiative_id = ''e'', name = ''Data Analytics'', type = ''Digital'',
         start_date = 0, target_end_date = 100 * day,
         budget_allocated = Fin 2000000000000009, budget_spent = Fin 2200000000000010,
         status = ''Completed'', owner = ''o'', description = ''d''\<rparr>,
        \<lparr>initiative.initiative_id = ''f'', name = ''Quality Management'', type = ''Financial'',
         start_date = 0, target_end_date = 100 * day,
         budget_allocated = Fin (6782638982640435 / 4294967296), budget_spent = Fin (7460902880904479 / 4294967296),
         status = ''Completed'', owner = ''o'', description = ''d''\<rparr>]"
      "[]"
      "[]"]
  by (simp add: scorer_defs)

section \<open>Health status\<close>

text \<open>C7. The health status of every produced row is the classification of its health
  score alone: Excellent from 80, Good from 65 and below 80, Warning from 50 and below 65,
  Critical below 50; at the boundaries 79.9 is Good, 80.0 Excellent, 64.9 Warning, 65.0
  Good, 49.9 Critical and 50.0 Warning.\<close>

theorem health_status_bands:
  "(\<exists>rows. calculate_initiative_health_scores today inits fin ops = Inr rows \<and>
      (\<forall>r\<in>set rows.
         health_status r = health_status_of (scored.health_score r) \<and>
         (health_status r = ''Excellent'' \<longleftrightarrow> fge (scored.health_score r) (Fin 80)) \<and>
         (health_status r = ''Good'' \<longleftrightarrow>
            fge (scored.health_score r) (Fin 65) \<and> flt (scored.health_score r) (Fin 80)) \<and>
         (health_status r = ''Warning'' \<longleftrightarrow>
            fge (scored.health_score r) (Fin 50) \<and> flt (scored.health_score r) (Fin 65)) \<and>
         (health_status r = ''Critical'' \<longleftrightarrow> flt (scored.health_score r) (Fin 50)))) \<and>
   health_status_of (Fin (799 / 10)) = ''Good'' \<and>
   health_status_of (Fin 80) = ''Excellent'' \<and>
   health_status_of (Fin (649 / 10)) = ''Warning'' \<and>
   health_status_of (Fin 65) = ''Good'' \<and>
   health_status_of (Fin (499 / 10)) = ''Critical'' \<and>
   health_status_of (Fin 50) = ''Warning''"
proof -
  obtain rows where rows: "calculate_initiative_health_scores today inits fin ops = Inr rows"
    and src: "\<forall>r\<in>set rows. \<exists>i fa oa. i \<in> set inits \<and> finish_row (score_row today ((i, fa), oa)) = Inr r"
    using health_rows by blast
  have "health_status r = health_status_of (scored.health_score r) \<and>
         (health_status r = ''Excellent'' \<longleftrightarrow> fge (scored.health_score r) (Fin 80)) \<and>
         (health_status r = ''Good'' \<longleftrightarrow>
            fge (scored.health_score r) (Fin 65) \<and> flt (scored.health_score r) (Fin 80)) \<and>
         (health_status r = ''Warning'' \<longleftrightarrow>
            fge (scored.health_score r) (Fin 50) \<and> flt (scored.health_score r) (Fin 65)) \<and>
         (health_status r = ''Critical'' \<longleftrightarrow> flt (scored.health_score r) (Fin 50))"
    if r: "r \<in> set rows" for r
  proof -
    from src r obtain i fa oa where f: "finish_row (score_row today ((i, fa), oa)) = Inr r"
      by blast
    obtain q where q: "scored.health_score r = Fin q"
      using health_score_finite[OF f] by blast
    show ?thesis
      unfolding finish_score_row(12)[OF f] q using health_status_of_bands[of q] by blast
  qed
  moreover have "health_status_of (Fin (799 / 10)) = ''Good''"
    "health_status_of (Fin 80) = ''Excellent''"
    "health_status_of (Fin (649 / 10)) = ''Warning''"
    "health_status_of (Fin 65) = ''Good''"
    "health_status_of (Fin (499 / 10)) = ''Critical''"
    "health_status_of (Fin 50) = ''Warning''"
    by (simp_all add: health_status_of_def fge_def)
  ultimately show ?thesis using rows by blast
qed

theorem health_status_bands_witness:
  "map_sum id (map (\<lambda>r. (scored.health_score r, health_status r)))
     (calculate_initiative_health_scores (150 * day)
       [\<lparr>initiative.initiative_id = ''a'', name = ''CRM Migration'', type = ''Digital'',
         start_date = 0, target_end_date = 100 * day,
         budget_allocated = Fin 100000, budget_spent = Fin 85000,
         status = ''Completed'', owner = ''o'', description = ''d''\<rparr>,
        \<lparr>initiative.initiative_id = ''b'', name = ''Supply Chain'', type = ''Operational'',
         start_date = 0, target_end_date = 100 * day,
         budget_allocated = Fin 100000, budget_spent = Fin 130000,
         status = ''In Progress'', owner = ''o'', description = ''d''\<rparr>,
        \<lparr>initiative.initiative_id = ''c'', name = ''Customer Portal'', type = ''Digital'',
         start_date = 200 * day, target_end_date = 300 * day,
         budget_allocated = Fin 100000, budget_spent = Fin 50000,
         status = ''Planning'', owner = ''o'', description = ''d''\<rparr>,
        \<lparr>initiative.initiative_id = ''d'', name = ''Skills Training'', type = ''HR'',
         start_date = 145 * day, target_end_date = 245 * day,
         budget_allocated = Fin 100000, budget_spent = Fin 105000,
         status = ''In Progress'', owner = ''o'', description = ''d''\<rparr>]
       [\<lparr>financial_metric.initiative_id = ''a'', date = 0,
         financial_metric.revenue_impact = Fin 10, financial_metric.cost_reduction = Fin 5,
         financial_metric.roi_percentage = Fin 22, budget_burn_rate = Fin 1,
         forecast_completion_cost = Fin 1\<rparr>,
        \<lparr>financial_metric.initiative_id = ''b'', date = 0,
         financial_metric.revenue_impact = Fin 10, financial_metric.cost_reduction = Fin 5,
         financial_metric.roi_percentage = Fin (- 5), budget_burn_rate = Fin 1,
         forecast_completion_cost = Fin 1\<rparr>]
       [\<lparr>operational_metric.initiative_id = ''a'', operational_metric.date = 0,
         operational_metric.efficiency_gain_percentage = Fin 10, process_cycle_time = Fin 1,
         operational_metric.quality_score = Fin 90,
         operational_metric.employee_satisfaction = Fin 8, customer_satisfaction = Fin 8\<rparr>,
        \<lparr>operational_metric.initiative_id = ''b'', operational_metric.date = 0,
         operational_metric.efficiency_gain_percentage = Fin 0, process_cycle_time = Fin 1,
         operational_metric.quality_score = Fin 50,
         operational_metric.employee_satisfaction = Fin 5, customer_satisfaction = Fin 8\<rparr>])
   = Inr [(Fin 100, ''Excellent''), (Fin 20, ''Critical''), (Fin 60, ''Warning''), (Fin 70, ''Good'')]"
  using health_status_bands [of "150 * day"
      "[\<lparr>initiative.initiative_id = ''a'', name = ''CRM Migration'', type = ''Digital'',
         start_date = 0, target_end_date = 100 * day,
         budget_allocated = Fin 100000, budget_spent = Fin 85000,
         status = ''Completed'', owner = ''o'', description = ''d''\<rparr>,
        \<lparr>initiative.initiative_id = ''b'', name = ''Supply Chain'', type = ''Operational'',
         start_date = 0, target_end_date = 100 * day,
         budget_allocated = Fin 100000, budget_spent = Fin 130000,
         status = ''In Progress'', owner = ''o'', description = ''d''\<rparr>,
        \<lparr>initiative.initiative_id = ''c'', name = ''Customer Portal'', type = ''Digital'',
         start_date = 200 * day, target_end_date = 300 * day,
         budget_allocated = Fin 100000, budget_spent = Fin 50000,
         status = ''Planning'', owner = ''o'', description = ''d''\<rparr>,
        \<lparr>initiative.initiative_id = ''d'', name = ''Skills Training'', type = ''HR'',
         start_date = 145 * day, target_end_date = 245 * day,
         budget_allocated = Fin 100000, budget_spent = Fin 105000,
         status = ''In Progress'', owner = ''o'', description = ''d''\<rparr>]"
      "[\<lparr>financial_metric.initiative_id = ''a'', date = 0,
         financial_metric.revenue_impact = Fin 10, financial_metric.cost_reduction = Fin 5,
         financial_metric.roi_percentage = Fin 22, budget_burn_rate = Fin 1,
         forecast_completion_cost = Fin 1\<rparr>,
        \<lparr>financial_metric.initiative_id = ''b'', date = 0,
         financial_metric.revenue_impact = Fin 10, financial_metric.cost_reduction = Fin 5,
         financial_metric.roi_percentage = Fin (- 5), budget_burn_rate = Fin 1,
         forecast_completion_cost = Fin 1\<rparr>]"
      "[\<lparr>operational_metric.initiative_id = ''a'', operational_metric.date = 0,
         operational_metric.efficiency_gain_percentage = Fin 10, process_cycle_time = Fin 1,
         operational_metric.quality_score = Fin 90,
         operational_metric.employee_satisfaction = Fin 8, customer_satisfaction = Fin 8\<rparr>,
        \<lparr>operational_metric.initiative_id = ''b'', operational_metric.date = 0,
         operational_metric.efficiency_gain_percentage = Fin 0, process_cycle_time = Fin 1,
         operational_metric.quality_score = Fin 50,
         operational_metric.employee_satisfaction = Fin 5, customer_satisfaction = Fin 8\<rparr>]"]
  by (simp add: scorer_defs)

section \<open>Time score\<close>

text \<open>The specification scores a zero planned duration as overdue (0). An initiative that
  is not Completed and starts and ends on the same future day has the progress minus
  infinity (-50 days over 0 days), which the first band accepts: its score is 20.\<close>

theorem time_score_zero_duration_counterexample:
  "map_sum id (map time_progress)
     (calculate_initiative_health_scores (150 * day)
       [\<lparr>initiative.initiative_id = ''z'', name = ''ERP Upgrade'', type = ''Digital'',
         start_date = 200 * day, target_end_date = 200 * day,
         budget_allocated = Fin 100000, budget_spent = Fin 90000,
         status = ''Planning'', owner = ''o'', description = ''d''\<rparr>]
       []
       []) = Inr [NInf] \<and>
   map_sum id (map time_score)
     (calculate_initiative_health_scores (150 * day)
       [\<lparr>initiative.initiative_id = ''z'', name = ''ERP Upgrade'', type = ''Digital'',
         start_date = 200 * day, target_end_date = 200 * day,
         budget_allocated = Fin 100000, budget_spent = Fin 90000,
         status = ''Planning'', owner = ''o'', description = ''d''\<rparr>]
       []
       []) = Inr [20]"
  by (simp add: scorer_defs)

text \<open>C6, as the code has it. In every produced row the time progress is the quotient of
  the whole days since the start and the whole days of the planned duration; the time
  score is 25 for a Completed initiative and otherwise 20, 15, 5 or 0 as the progress is at
  most 0.9, 1.0, 1.2 or none of these. When the start date equals the target end date no
  error is raised: an initiative that is not Completed scores 0 if its start date is not
  after the time of the computation, and 20 if it is.\<close>

theorem time_score_bands:
  "\<exists>rows. calculate_initiative_health_scores today inits fin ops = Inr rows \<and>
     (\<forall>r\<in>set rows.
        days_since_start r = (today - start_date r) div day \<and>
        total_duration r = (target_end_date r - start_date r) div day \<and>
        time_progress r = fdiv (Fin (of_int (days_since_start r))) (Fin (of_int (total_duration r))) \<and>
        time_score r =
          (if initiative.status r = ''Completed'' then 25
           else if fle (time_progress r) (Fin (9 / 10)) then 20
           else if fle (time_progress r) (Fin 1) then 15
           else if fle (time_progress r) (Fin (12 / 10)) then 5
           else 0) \<and>
        (start_date r = target_end_date r \<and> initiative.status r \<noteq> ''Completed'' \<longrightarrow>
           time_score r = (if start_date r \<le> today then 0 else 20)))"
proof -
  obtain rows where rows: "calculate_initiative_health_scores today inits fin ops = Inr rows"
    and src: "\<forall>r\<in>set rows. \<exists>i fa oa. i \<in> set inits \<and> finish_row (score_row today ((i, fa), oa)) = Inr r"
    using health_rows by blast
  have "days_since_start r = (today - start_date r) div day \<and>
        total_duration r = (target_end_date r - start_date r) div day \<and>
        time_progress r = fdiv (Fin (of_int (days_since_start r))) (Fin (of_int (total_duration r))) \<and>
        time_score r =
          (if initiative.status r = ''Completed'' then 25
           else if fle (time_progress r) (Fin (9 / 10)) then 20
           else if fle (time_progress r) (Fin 1) then 15
           else if fle (time_progress r) (Fin (12 / 10)) then 5
           else 0) \<and>
        (start_date r = target_end_date r \<and> initiative.status r \<noteq> ''Completed'' \<longrightarrow>
           time_score r = (if start_date r \<le> today then 0 else 20))"
    if r: "r \<in> set rows" for r
  proof -
    from src r obtain i fa oa where "finish_row (score_row today ((i, fa), oa)) = Inr r"
      by blast
    note facts = finish_score_row[OF this]
    have dss: "days_since_start r = (today - start_date r) div day"
      using facts(5) by (simp add: dt_days_def)
    have td: "total_duration r = (target_end_date r - start_date r) div day"
      using facts(6) by (simp add: dt_days_def)
    have ts: "time_score r =
          (if initiative.status r = ''Completed'' then 25
           else if fle (time_progress r) (Fin (9 / 10)) then 20
           else if fle (time_progress r) (Fin 1) then 15
           else if fle (time_progress r) (Fin (12 / 10)) then 5
           else 0)"
      using facts(8) by (simp add: time_points_def)
    have z: "time_score r = (if start_date r \<le> today then 0 else 20)"
      if eq: "start_date r = target_end_date r" and st: "initiative.status r \<noteq> ''Completed''"
    proof -
      have "time_progress r =
          (if start_date r \<le> today then (if dt_days (today - start_date r) = 0 then NaN else PInf) else NInf)"
        using facts(7) facts(5) facts(6) eq zero_duration_progress[of today "start_date r"] by simp
      then show ?thesis
        using ts st by simp
    qed
    from dss td facts(7) ts z show ?thesis by blast
  qed
  with rows show ?thesis by blast
qed

theorem time_score_bands_witness:
  "map_sum id (map (\<lambda>r. (initiative.status r, start_date r = target_end_date r, time_progress r, time_score r)))
     (calculate_initiative_health_scores (150 * day)
       [\<lparr>initiative.initiative_id = ''a'', name = ''CRM Migration'', type = ''Digital'',
         start_date = 0, target_end_date = 100 * day,
         budget_allocated = Fin 100000, budget_spent = Fin 85000,
         status = ''Completed'', owner = ''o'', description = ''d''\<rparr>,
        \<lparr>initiative.initiative_id = ''b'', name = ''Supply Chain'', type = ''Operational'',
         start_date = 0, target_end_date = 100 * day,
         budget_allocated = Fin 100000, budget_spent = Fin 130000,
         status = ''In Progress'', owner = ''o'', description = ''d''\<rparr>,
        \<lparr>initiative.initiative_id = ''c'', name = ''Customer Portal'', type = ''Digital'',
         start_date = 200 * day, target_end_date = 300 * day,
         budget_allocated = Fin 100000, budget_spent = Fin 50000,
         status = ''Planning'', owner = ''o'', description = ''d''\<rparr>,
        \<lparr>initiative.initiative_id = ''z'', name = ''ERP Upgrade'', type = ''Digital'',
         start_date = 200 * day, target_end_date = 200 * day,
         budget_allocated = Fin 100000, budget_spent = Fin 90000,
         status = ''Planning'', owner = ''o'', description = ''d''\<rparr>,
        \<lparr>initiative.initiative_id = ''y'', name = ''Vendor Consolidation'', type = ''Financial'',
         start_date = 100 * day, target_end_date = 100 * day,
         budget_allocated = Fin 100000, budget_spent = Fin 90000,
         status = ''On Hold'', owner = ''o'', description = ''d''\<rparr>]
       []
       [])
   = Inr [(''Completed'', False, Fin (3 / 2), 25), (''In Progress'', False, Fin (3 / 2), 0),
          (''Planning'', False, Fin (- 1 / 2), 20), (''Planning'', True, NInf, 20),
          (''On Hold'', True, PInf, 0)]"
  using time_score_bands [of "150 * day"
      "[\<lparr>initiative.initiative_id = ''a'', name = ''CRM Migration'', type = ''Digital'',
         start_date = 0, target_end_date = 100 * day,
         budget_allocated = Fin 100000, budget_spent = Fin 85000,
         status = ''Completed'', owner = ''o'', description = ''d''\<rparr>,
        \<lparr>initiative.initiative_id = ''b'', name = ''Supply Chain'', type = ''Operational'',
         start_date = 0, target_end_date = 100 * day,
         budget_allocated = Fin 100000, budget_spent = Fin 130000,
         status = ''In Progress'', owner = ''o'', description = ''d''\<rparr>,
        \<lparr>initiative.initiative_id = ''c'', name = ''Customer Portal'', type = ''Digital'',
         start_date = 200 * day, target_end_date = 300 * day,
         budget_allocated = Fin 100000, budget_spent = Fin 50000,
         status = ''Planning'', owner = ''o'', description = ''d''\<rparr>,
        \<lparr>initiative.initiative_id = ''z'', name = ''ERP Upgrade'', type = ''Digital'',
         start_date = 200 * day, target_end_date = 200 * day,
         budget_allocated = Fin 100000, budget_spent = Fin 90000,
         status = ''Planning'', owner = ''o'', description = ''d''\<rparr>,
        \<lparr>initiative.initiative_id = ''y'', name = ''Vendor Consolidation'', type = ''Financial'',
         start_date = 100 * day, target_end_date = 100 * day,
         budget_allocated = Fin 100000, budget_spent = Fin 90000,
         status = ''On Hold'', owner = ''o'', description = ''d''\<rparr>]"
      "[]"
      "[]"]
  by (simp add: scorer_defs)

section \<open>Predicted completion date\<close>

text \<open>C8. In every produced row the predicted completion date is the target end date when
  the status is Completed; otherwise, when the time progress is positive, it is the start
  date plus the time delta of \<open>days_since_start / max(time_progress, 0.1)\<close> days; and when
  the time progress is at most 0 it is the target end date.\<close>

theorem predicted_completion_date_cases:
  "\<exists>rows. calculate_initiative_health_scores today inits fin ops = Inr rows \<and>
     (\<forall>r\<in>set rows.
        (initiative.status r = ''Completed'' \<longrightarrow> predicted_completion_date r = target_end_date r) \<and>
        (initiative.status r \<noteq> ''Completed'' \<and> fgt (time_progress r) (Fin 0) \<longrightarrow>
           timedelta_days (fdiv (Fin (of_int (days_since_start r))) (py_max (time_progress r) (Fin (1 / 10))))
             = Inr (predicted_completion_date r - start_date r)) \<and>
        (initiative.status r \<noteq> ''Completed'' \<and> fle (time_progress r) (Fin 0) \<longrightarrow>
           predicted_completion_date r = target_end_date r))"
proof -
  obtain rows where rows: "calculate_initiative_health_scores today inits fin ops = Inr rows"
    and src: "\<forall>r\<in>set rows. \<exists>i fa oa. i \<in> set inits \<and> finish_row (score_row today ((i, fa), oa)) = Inr r"
    using health_rows by blast
  have "(initiative.status r = ''Completed'' \<longrightarrow> predicted_completion_date r = target_end_date r) \<and>
        (initiative.status r \<noteq> ''Completed'' \<and> fgt (time_progress r) (Fin 0) \<longrightarrow>
           timedelta_days (fdiv (Fin (of_int (days_since_start r))) (py_max (time_progress r) (Fin (1 / 10))))
             = Inr (predicted_completion_date r - start_date r)) \<and>
        (initiative.status r \<noteq> ''Completed'' \<and> fle (time_progress r) (Fin 0) \<longrightarrow>
           predicted_completion_date r = target_end_date r)"
    if r: "r \<in> set rows" for r
  proof -
    from src r obtain i fa oa where "finish_row (score_row today ((i, fa), oa)) = Inr r"
      by blast
    note p = finish_score_row(13)[OF this]
    have 1: "predicted_completion_date r = target_end_date r" if "initiative.status r = ''Completed''"
      using p that by (simp add: predict_completion_date_def)
    have 2: "timedelta_days (fdiv (Fin (of_int (days_since_start r))) (py_max (time_progress r) (Fin (1 / 10))))
             = Inr (predicted_completion_date r - start_date r)"
      if "initiative.status r \<noteq> ''Completed''" "fgt (time_progress r) (Fin 0)"
      using p that by (auto simp: predict_completion_date_def Let_def split: sum.splits)
    have 3: "predicted_completion_date r = target_end_date r"
      if "initiative.status r \<noteq> ''Completed''" "fle (time_progress r) (Fin 0)"
      using p that fle_not_fgt[OF that(2)] by (simp add: predict_completion_date_def)
    from 1 2 3 show ?thesis by blast
  qed
  with rows show ?thesis by blast
qed

theorem predicted_completion_date_cases_witness:
  "map_sum id (map (\<lambda>r. (initiative.status r, time_progress r, predicted_completion_date r)))
     (calculate_initiative_health_scores (150 * day)
       [\<lparr>initiative.initiative_id = ''a'', name = ''CRM Migration'', type = ''Digital'',
         start_date = 0, target_end_date = 100 * day,
         budget_allocated = Fin 100000, budget_spent = Fin 85000,
         status = ''Completed'', owner = ''o'', description = ''d''\<rparr>,
        \<lparr>initiative.initiative_id = ''b'', name = ''Supply Chain'', type = ''Operational'',
         start_date = 0, target_end_date = 100 * day,
         budget_allocated = Fin 100000, budget_spent = Fin 130000,
         status = ''In Progress'', owner = ''o'', description = ''d''\<rparr>,
        \<lparr>initiative.initiative_id = ''c'', name = ''Customer Portal'', type = ''Digital'',
         start_date = 200 * day, target_end_date = 300 * day,
         budget_allocated = Fin 100000, budget_spent = Fin 50000,
         status = ''Planning'', owner = ''o'', description = ''d''\<rparr>,
        \<lparr>initiative.initiative_id = ''d'', name = ''Skills Training'', type = ''HR'',
         start_date = 145 * day, target_end_date = 245 * day,
         budget_allocated = Fin 100000, budget_spent = Fin 105000,
         status = ''In Progress'', owner = ''o'', description = ''d''\<rparr>]
       []
       [])
   = Inr [(''Completed'', Fin (3 / 2), 100 * day), (''In Progress'', Fin (3 / 2), 100 * day),
          (''Planning'', Fin (- 1 / 2), 300 * day), (''In Progress'', Fin (1 / 20), 195 * day)]"
  using predicted_completion_date_cases [of "150 * day"
      "[\<lparr>initiative.initiative_id = ''a'', name = ''CRM Migration'', type = ''Digital'',
         start_date = 0, target_end_date = 100 * day,
         budget_allocated = Fin 100000, budget_spent = Fin 85000,
         status = ''Completed'', owner = ''o'', description = ''d''\<rparr>,
        \<lparr>initiative.initiative_id = ''b'', name = ''Supply Chain'', type = ''Operational'',
         start_date = 0, target_end_date = 100 * day,
         budget_allocated = Fin 100000, budget_spent = Fin 130000,
         status = ''In Progress'', owner = ''o'', description = ''d''\<rparr>,
        \<lparr>initiative.initiative_id = ''c'', name = ''Customer Portal'', type = ''Digital'',
         start_date = 200 * day, target_end_date = 300 * day,
         budget_allocated = Fin 100000, budget_spent = Fin 50000,
         status = ''Planning'', owner = ''o'', description = ''d''\<rparr>,
        \<lparr>initiative.initiative_id = ''d'', name = ''Skills Training'', type = ''HR'',
         start_date = 145 * day, target_end_date = 245 * day,
         budget_allocated = Fin 100000, budget_spent = Fin 105000,
         status = ''In Progress'', owner = ''o'', description = ''d''\<rparr>]"
      "[]"
      "[]"]
  by (simp add: scorer_defs)

section \<open>Risk factors\<close>

text \<open>C2. The specification reads a missing ROI aggregate as 0, which is below 5 and flags
  Low ROI. The code does not: for a Completed initiative without samples of its own the
  merged ROI is NaN, \<^verbatim>\<open>row.get('roi_percentage', 0)\<close> returns that NaN, and no risk
  factor is listed, while the financial score of the same row (10) is the one of an ROI
  of 0.\<close>

theorem risk_factors_missing_roi_not_flagged:
  "calculate_initiative_health_scores (150 * day)
       [\<lparr>initiative.initiative_id = ''a'', name = ''CRM Migration'', type = ''Digital'',
         start_date = 0, target_end_date = 100 * day,
         budget_allocated = Fin 100000, budget_spent = Fin 85000,
         status = ''Completed'', owner = ''o'', description = ''d''\<rparr>]
       [\<lparr>financial_metric.initiative_id = ''b'', date = 0,
         financial_metric.revenue_impact = Fin 10, financial_metric.cost_reduction = Fin 5,
         financial_metric.roi_percentage = Fin (- 5), budget_burn_rate = Fin 1,
         forecast_completion_cost = Fin 1\<rparr>]
       [\<lparr>operational_metric.initiative_id = ''b'', operational_metric.date = 0,
         operational_metric.efficiency_gain_percentage = Fin 0, process_cycle_time = Fin 1,
         operational_metric.quality_score = Fin 50,
         operational_metric.employee_satisfaction = Fin 5, customer_satisfaction = Fin 8\<rparr>]
   = Inr [\<lparr>initiative.initiative_id = ''a'', name = ''CRM Migration'', type = ''Digital'',
         start_date = 0, target_end_date = 100 * day,
         budget_allocated = Fin 100000, budget_spent = Fin 85000,
         status = ''Completed'', owner = ''o'', description = ''d'',
         budget_utilization = Fin (7656119366529843 / 9007199254740992), budget_score = 25,
         days_since_start = 150, total_duration = 100,
         time_progress = Fin (3 / 2), time_score = 25,
         revenue_impact = NaN, cost_reduction = NaN, roi_percentage = NaN,
         financial_score = 10,
         efficiency_gain_percentage = NaN, quality_score = NaN,
         employee_satisfaction = NaN, operational_score = Fin 20,
         health_score = Fin 80, health_status = ''Excellent'',
         predicted_completion_date = 100 * day, risk_factors = []\<rparr>]"
  by (simp add: scorer_defs)

section \<open>Portfolio divisions\<close>

text \<open>The specification asks for a guarded division with a sentinel. There is none: for a
  portfolio whose budgets and financial impacts are all zero the utilization rate and the
  portfolio ROI are NaN.\<close>

theorem portfolio_division_by_zero_counterexample:
  "calculate_initiative_health_scores (150 * day)
       [\<lparr>initiative.initiative_id = ''n'', name = ''Process Digitization'', type = ''Digital'',
         start_date = 0, target_end_date = 100 * day,
         budget_allocated = Fin 0, budget_spent = Fin 0,
         status = ''Planning'', owner = ''o'', description = ''d''\<rparr>]
       [\<lparr>financial_metric.initiative_id = ''n'', date = 0,
         financial_metric.revenue_impact = Fin 0, financial_metric.cost_reduction = Fin 0,
         financial_metric.roi_percentage = Fin 0, budget_burn_rate = Fin 1,
         forecast_completion_cost = Fin 1\<rparr>]
       []
   = Inr [\<lparr>initiative.initiative_id = ''n'', name = ''Process Digitization'', type = ''Digital'',
         start_date = 0, target_end_date = 100 * day,
         budget_allocated = Fin 0, budget_spent = Fin 0,
         status = ''Planning'', owner = ''o'', description = ''d'',
         budget_utilization = NaN, budget_score = 0,
         days_since_start = 150, total_duration = 100,
         time_progress = Fin (3 / 2), time_score = 0,
         revenue_impact = Fin 0, cost_reduction = Fin 0, roi_percentage = Fin 0,
         financial_score = 10,
         efficiency_gain_percentage = NaN, quality_score = NaN,
         employee_satisfaction = NaN, operational_score = Fin 20,
         health_score = Fin 30, health_status = ''Critical'',
         predicted_completion_date = 100 * day, risk_factors = [''Schedule Delay'', ''Low ROI'']\<rparr>] \<and>
   budget_utilization_rate (calculate_portfolio_metrics (150 * day)
       [\<lparr>initiative.initiative_id = ''n'', name = ''Process Digitization'', type = ''Digital'',
         start_date = 0, target_end_date = 100 * day,
         budget_allocated = Fin 0, budget_spent = Fin 0,
         status = ''Planning'', owner = ''o'', description = ''d'',
         budget_utilization = NaN, budget_score = 0,
         days_since_start = 150, total_duration = 100,
         time_progress = Fin (3 / 2), time_score = 0,
         revenue_impact = Fin 0, cost_reduction = Fin 0, roi_percentage = Fin 0,
         financial_score = 10,
         efficiency_gain_percentage = NaN, quality_score = NaN,
         employee_satisfaction = NaN, operational_score = Fin 20,
         health_score = Fin 30, health_status = ''Critical'',
         predicted_completion_date = 100 * day, risk_factors = [''Schedule Delay'', ''Low ROI'']\<rparr>]
       [\<lparr>financial_metric.initiative_id = ''n'', date = 0,
         financial_metric.revenue_impact = Fin 0, financial_metric.cost_reduction = Fin 0,
         financial_metric.roi_percentage = Fin 0, budget_burn_rate = Fin 1,
         forecast_completion_cost = Fin 1\<rparr>]) = NaN \<and>
   portfolio_roi (calculate_portfolio_metrics (150 * day)
       [\<lparr>initiative.initiative_id = ''n'', name = ''Process Digitization'', type = ''Digital'',
         start_date = 0, target_end_date = 100 * day,
         budget_allocated = Fin 0, budget_spent = Fin 0,
         status = ''Planning'', owner = ''o'', description = ''d'',
         budget_utilization = NaN, budget_score = 0,
         days_since_start = 150, total_duration = 100,
         time_progress = Fin (3 / 2), time_score = 0,
         revenue_impact = Fin 0, cost_reduction = Fin 0, roi_percentage = Fin 0,
         financial_score = 10,
         efficiency_gain_percentage = NaN, quality_score = NaN,
         employee_satisfaction = NaN, operational_score = Fin 20,
         health_score = Fin 30, health_status = ''Critical'',
         predicted_completion_date = 100 * day, risk_factors = [''Schedule Delay'', ''Low ROI'']\<rparr>]
       [\<lparr>financial_metric.initiative_id = ''n'', date = 0,
         financial_metric.revenue_impact = Fin 0, financial_metric.cost_reduction = Fin 0,
         financial_metric.roi_percentage = Fin 0, budget_burn_rate = Fin 1,
         forecast_completion_cost = Fin 1\<rparr>]) = NaN"
  by (simp add: scorer_defs portfolio_defs)

text \<open>C3, as the code has it. \<^verbatim>\<open>calculate_portfolio_metrics\<close> raises nothing on such
  inputs, and the two quotients are unguarded float divisions: the utilization rate is
  spent over allocated times 100 and the portfolio ROI is (impact over spent, minus 1)
  times 100. With a zero allocated sum the rate is NaN when the spent sum is zero and an
  infinity of the sign of the spent sum otherwise; with a zero spent sum the ROI is NaN
  when the total financial impact is zero and an infinity of its sign otherwise.\<close>

theorem portfolio_division_unguarded:
  "let m = calculate_portfolio_metrics now health_df financial_df
   in budget_utilization_rate m = fmul (fdiv (total_budget_spent m) (total_budget_allocated m)) (Fin 100) \<and>
      portfolio_roi m = fmul (fsub (fdiv (total_financial_impact m) (total_budget_spent m)) (Fin 1)) (Fin 100) \<and>
      (total_budget_allocated m = Fin 0 \<longrightarrow>
         budget_utilization_rate m =
           (case total_budget_spent m of
              Fin s \<Rightarrow> (if s = 0 then NaN else if 0 < s then PInf else NInf)
            | x \<Rightarrow> x)) \<and>
      (total_budget_spent m = Fin 0 \<longrightarrow>
         portfolio_roi m =
           (case total_financial_impact m of
              Fin s \<Rightarrow> (if s = 0 then NaN else if 0 < s then PInf else NInf)
            | x \<Rightarrow> x))"
proof -
  define m where "m = calculate_portfolio_metrics now health_df financial_df"
  have r: "budget_utilization_rate m = fmul (fdiv (total_budget_spent m) (total_budget_allocated m)) (Fin 100)"
    by (simp add: m_def calculate_portfolio_metrics_def Let_def)
  have p: "portfolio_roi m = fmul (fsub (fdiv (total_financial_impact m) (total_budget_spent m)) (Fin 1)) (Fin 100)"
    by (simp add: m_def calculate_portfolio_metrics_def Let_def)
  have 1: "budget_utilization_rate m =
           (case total_budget_spent m of
              Fin s \<Rightarrow> (if s = 0 then NaN else if 0 < s then PInf else NInf)
            | x \<Rightarrow> x)" if "total_budget_allocated m = Fin 0"
    unfolding r that by (cases "total_budget_spent m") simp_all
  have 2: "portfolio_roi m =
           (case total_financial_impact m of
              Fin s \<Rightarrow> (if s = 0 then NaN else if 0 < s then PInf else NInf)
            | x \<Rightarrow> x)" if "total_budget_spent m = Fin 0"
    unfolding p that by (cases "total_financial_impact m") (simp_all add: fsub_def)
  from r p 1 2 show ?thesis
    unfolding m_def[symmetric] Let_def by blast
qed

theorem portfolio_division_unguarded_witness:
  "budget_utilization_rate (calculate_portfolio_metrics (150 * day)
       [\<lparr>initiative.initiative_id = ''p'', name = ''Lean Manufacturing'', type = ''Digital'',
         start_date = 0, target_end_date = 100 * day,
         budget_allocated = Fin 0, budget_spent = Fin 5000,
         status = ''Planning'', owner = ''o'', description = ''d'',
         budget_utilization = PInf, budget_score = 0,
         days_since_start = 150, total_duration = 100,
         time_progress = Fin (3 / 2), time_score = 0,
         revenue_impact = NaN, cost_reduction = NaN, roi_percentage = NaN,
         financial_score = 10,
         efficiency_gain_percentage = NaN, quality_score = NaN,
         employee_satisfaction = NaN, operational_score = Fin 20,
         health_score = Fin 30, health_status = ''Critical'',
         predicted_completion_date = 100 * day, risk_factors = [''Budget Overrun'', ''Schedule Delay'']\<rparr>] []) = PInf \<and>
   portfolio_roi (calculate_portfolio_metrics (150 * day)
       [\<lparr>initiative.initiative_id = ''q'', name = ''Quality Management'', type = ''Digital'',
         start_date = 0, target_end_date = 100 * day,
         budget_allocated = Fin 100000, budget_spent = Fin 0,
         status = ''Planning'', owner = ''o'', description = ''d'',
         budget_utilization = Fin 0, budget_score = 0,
         days_since_start = 150, total_duration = 100,
         time_progress = Fin (3 / 2), time_score = 0,
         revenue_impact = NaN, cost_reduction = NaN, roi_percentage = NaN,
         financial_score = 10,
         efficiency_gain_percentage = NaN, quality_score = NaN,
         employee_satisfaction = NaN, operational_score = Fin 20,
         health_score = Fin 30, health_status = ''Critical'',
         predicted_completion_date = 100 * day, risk_factors = [''Schedule Delay'']\<rparr>]
       [\<lparr>financial_metric.initiative_id = ''q'', date = 0,
         financial_metric.revenue_impact = Fin 10, financial_metric.cost_reduction = Fin 5,
         financial_metric.roi_percentage = Fin 22, budget_burn_rate = Fin 1,
         forecast_completion_cost = Fin 1\<rparr>]) = PInf"
  using portfolio_division_unguarded [of "150 * day"
       "[\<lparr>initiative.initiative_id = ''p'', name = ''Lean Manufacturing'', type = ''Digital'',
         start_date = 0, target_end_date = 100 * day,
         budget_allocated = Fin 0, budget_spent = Fin 5000,
         status = ''Planning'', owner = ''o'', description = ''d'',
         budget_utilization = PInf, budget_score = 0,
         days_since_start = 150, total_duration = 100,
         time_progress = Fin (3 / 2), time_score = 0,
         revenue_impact = NaN, cost_reduction = NaN, roi_percentage = NaN,
         financial_score = 10,
         efficiency_gain_percentage = NaN, quality_score = NaN,
         employee_satisfaction = NaN, operational_score = Fin 20,
         health_score = Fin 30, health_status = ''Critical'',
         predicted_completion_date = 100 * day, risk_factors = [''Budget Overrun'', ''Schedule Delay'']\<rparr>]" "[]"]
    portfolio_division_unguarded [of "150 * day"
       "[\<lparr>initiative.initiative_id = ''q'', name = ''Quality Management'', type = ''Digital'',
         start_date = 0, target_end_date = 100 * day,
         budget_allocated = Fin 100000, budget_spent = Fin 0,
         status = ''Planning'', owner = ''o'', description = ''d'',
         budget_utilization = Fin 0, budget_score = 0,
         days_since_start = 150, total_duration = 100,
         time_progress = Fin (3 / 2), time_score = 0,
         revenue_impact = NaN, cost_reduction = NaN, roi_percentage = NaN,
         financial_score = 10,
         efficiency_gain_percentage = NaN, quality_score = NaN,
         employee_satisfaction = NaN, operational_score = Fin 20,
         health_score = Fin 30, health_status = ''Critical'',
         predicted_completion_date = 100 * day, risk_factors = [''Schedule Delay'']\<rparr>]"
       "[\<lparr>financial_metric.initiative_id = ''q'', date = 0,
         financial_metric.revenue_impact = Fin 10, financial_metric.cost_reduction = Fin 5,
         financial_metric.roi_percentage = Fin 22, budget_burn_rate = Fin 1,
         forecast_completion_cost = Fin 1\<rparr>]"]
  by (simp add: portfolio_defs)

section \<open>At-risk bucket\<close>

text \<open>C4. The at-risk bucket of the portfolio metrics is the filter
  \<open>health_score < 50\<close> of the health table: its count, its names and its allocated
  budget are those of the filtered rows. On the table produced by the scorer its count
  equals the \<open>critical\<close> entry of the health distribution.\<close>

theorem at_risk_bucket_is_filter:
  "(let m = calculate_portfolio_metrics now health_df financial_df;
        at_risk = filter (\<lambda>r. flt (scored.health_score r) (Fin 50)) health_df
    in count (at_risk_initiatives m) = length at_risk \<and>
       names (at_risk_initiatives m) = map name at_risk \<and>
       total_budget (at_risk_initiatives m) = fsum (map initiative.budget_allocated at_risk)) \<and>
   (\<exists>rows. calculate_initiative_health_scores today inits fin ops = Inr rows \<and>
      count (at_risk_initiatives (calculate_portfolio_metrics now rows financial_df)) =
        critical (health_distribution (calculate_portfolio_metrics now rows financial_df)))"
proof -
  have a: "let m = calculate_portfolio_metrics now health_df financial_df;
        at_risk = filter (\<lambda>r. flt (scored.health_score r) (Fin 50)) health_df
    in count (at_risk_initiatives m) = length at_risk \<and>
       names (at_risk_initiatives m) = map name at_risk \<and>
       total_budget (at_risk_initiatives m) = fsum (map initiative.budget_allocated at_risk)"
    by (simp add: calculate_portfolio_metrics_def Let_def fsum_def)
  obtain rows where rows: "calculate_initiative_health_scores today inits fin ops = Inr rows"
    and src: "\<forall>r\<in>set rows. \<exists>i fa oa. i \<in> set inits \<and> finish_row (score_row today ((i, fa), oa)) = Inr r"
    using health_rows by blast
  have "(health_status r = ''Critical'') = flt (scored.health_score r) (Fin 50)" if "r \<in> set rows" for r
    using src that critical_is_at_risk by blast
  then have "filter (\<lambda>r. health_status r = ''Critical'') rows =
      filter (\<lambda>r. flt (scored.health_score r) (Fin 50)) rows"
    by (simp cong: filter_cong)
  then have "count (at_risk_initiatives (calculate_portfolio_metrics now rows financial_df)) =
        critical (health_distribution (calculate_portfolio_metrics now rows financial_df))"
    by (simp add: calculate_portfolio_metrics_def Let_def)
  with rows a show ?thesis by blast
qed

section \<open>Upcoming completions\<close>

text \<open>The specification keeps past completions out of the bucket. The filter has no lower
  bound: a Completed initiative whose predicted completion date is 50 days before the
  computation is listed.\<close>

theorem upcoming_includes_past_counterexample:
  "calculate_initiative_health_scores (150 * day)
       [\<lparr>initiative.initiative_id = ''a'', name = ''CRM Migration'', type = ''Digital'',
         start_date = 0, target_end_date = 100 * day,
         budget_allocated = Fin 100000, budget_spent = Fin 85000,
         status = ''Completed'', owner = ''o'', description = ''d''\<rparr>]
       []
       []
   = Inr [\<lparr>initiative.initiative_id = ''a'', name = ''CRM Migration'', type = ''Digital'',
         start_date = 0, target_end_date = 100 * day,
         budget_allocated = Fin 100000, budget_spent = Fin 85000,
         status = ''Completed'', owner = ''o'', description = ''d'',
         budget_utilization = Fin (7656119366529843 / 9007199254740992), budget_score = 25,
         days_since_start = 150, total_duration = 100,
         time_progress = Fin (3 / 2), time_score = 25,
         revenue_impact = NaN, cost_reduction = NaN, roi_percentage = NaN,
         financial_score = 10,
         efficiency_gain_percentage = NaN, quality_score = NaN,
         employee_satisfaction = NaN, operational_score = Fin 20,
         health_score = Fin 80, health_status = ''Excellent'',
         predicted_completion_date = 100 * day, risk_factors = []\<rparr>] \<and>
   100 * day < 150 * day \<and>
   names (upcoming_completions (calculate_portfolio_metrics (150 * day)
       [\<lparr>initiative.initiative_id = ''a'', name = ''CRM Migration'', type = ''Digital'',
         start_date = 0, target_end_date = 100 * day,
         budget_allocated = Fin 100000, budget_spent = Fin 85000,
         status = ''Completed'', owner = ''o'', description = ''d'',
         budget_utilization = Fin (7656119366529843 / 9007199254740992), budget_score = 25,
         days_since_start = 150, total_duration = 100,
         time_progress = Fin (3 / 2), time_score = 25,
         revenue_impact = NaN, cost_reduction = NaN, roi_percentage = NaN,
         financial_score = 10,
         efficiency_gain_percentage = NaN, quality_score = NaN,
         employee_satisfaction = NaN, operational_score = Fin 20,
         health_score = Fin 80, health_status = ''Excellent'',
         predicted_completion_date = 100 * day, risk_factors = []\<rparr>] []))
   = [''CRM Migration'']"
  by (simp add: scorer_defs portfolio_defs)

text \<open>C5, as the code has it. The upcoming-completions bucket (count and names) holds
  exactly the rows whose predicted completion date is at most 30 days after the time of
  the computation; there is no lower bound, so every row predicted to complete before
  that time is a member.\<close>

theorem upcoming_completions_bucket:
  "let m = calculate_portfolio_metrics now health_df financial_df;
       upcoming = filter (\<lambda>r. predicted_completion_date r \<le> now + 30 * day) health_df
   in count (upcoming_completions m) = length upcoming \<and>
      names (upcoming_completions m) = map name upcoming \<and>
      (\<forall>r\<in>set health_df. predicted_completion_date r < now \<longrightarrow> r \<in> set upcoming)"
  by (simp add: calculate_portfolio_metrics_def Let_def day_def)

theorem upcoming_completions_bucket_witness:
  "upcoming_completions (calculate_portfolio_metrics (150 * day)
       [\<lparr>initiative.initiative_id = ''a'', name = ''CRM Migration'', type = ''Digital'',
         start_date = 0, target_end_date = 100 * day,
         budget_allocated = Fin 100000, budget_spent = Fin 85000,
         status = ''Completed'', owner = ''o'', description = ''d'',
         budget_utilization = Fin (7656119366529843 / 9007199254740992), budget_score = 25,
         days_since_start = 150, total_duration = 100,
         time_progress = Fin (3 / 2), time_score = 25,
         revenue_impact = NaN, cost_reduction = NaN, roi_percentage = NaN,
         financial_score = 10,
         efficiency_gain_percentage = NaN, quality_score = NaN,
         employee_satisfaction = NaN, operational_score = Fin 20,
         health_score = Fin 80, health_status = ''Excellent'',
         predicted_completion_date = 100 * day, risk_factors = []\<rparr>,
        \<lparr>initiative.initiative_id = ''c'', name = ''Customer Portal'', type = ''Digital'',
         start_date = 200 * day, target_end_date = 300 * day,
         budget_allocated = Fin 100000, budget_spent = Fin 50000,
         status = ''Planning'', owner = ''o'', description = ''d'',
         budget_utilization = Fin (1 / 2), budget_score = 10,
         days_since_start = - 50, total_duration = 100,
         time_progress = Fin (- (1 / 2)), time_score = 20,
         revenue_impact = NaN, cost_reduction = NaN, roi_percentage = NaN,
         financial_score = 10,
         efficiency_gain_percentage = NaN, quality_score = NaN,
         employee_satisfaction = NaN, operational_score = Fin 20,
         health_score = Fin 60, health_status = ''Warning'',
         predicted_completion_date = 300 * day, risk_factors = []\<rparr>] [])
   = \<lparr>count = 1, names = [''CRM Migration'']\<rparr>"
  using upcoming_completions_bucket [of "150 * day"
       "[\<lparr>initiative.initiative_id = ''a'', name = ''CRM Migration'', type = ''Digital'',
         start_date = 0, target_end_date = 100 * day,
         budget_allocated = Fin 100000, budget_spent = Fin 85000,
         status = ''Completed'', owner = ''o'', description = ''d'',
         budget_utilization = Fin (7656119366529843 / 9007199254740992), budget_score = 25,
         days_since_start = 150, total_duration = 100,
         time_progress = Fin (3 / 2), time_score = 25,
         revenue_impact = NaN, cost_reduction = NaN, roi_percentage = NaN,
         financial_score = 10,
         efficiency_gain_percentage = NaN, quality_score = NaN,
         employee_satisfaction = NaN, operational_score = Fin 20,
         health_score = Fin 80, health_status = ''Excellent'',
         predicted_completion_date = 100 * day, risk_factors = []\<rparr>,
         \<lparr>initiative.initiative_id = ''c'', name = ''Customer Portal'', type = ''Digital'',
         start_date = 200 * day, target_end_date = 300 * day,
         budget_allocated = Fin 100000, budget_spent = Fin 50000,
         status = ''Planning'', owner = ''o'', description = ''d'',
         budget_utilization = Fin (1 / 2), budget_score = 10,
         days_since_start = - 50, total_duration = 100,
         time_progress = Fin (- (1 / 2)), time_score = 20,
         revenue_impact = NaN, cost_reduction = NaN, roi_percentage = NaN,
         financial_score = 10,
         efficiency_gain_percentage = NaN, quality_score = NaN,
         employee_satisfaction = NaN, operational_score = Fin 20,
         health_score = Fin 60, health_status = ''Warning'',
         predicted_completion_date = 300 * day, risk_factors = []\<rparr>]" "[]"]
  by (simp add: portfolio_defs)

section \<open>Executive summary division\<close>

text \<open>C10. \<^verbatim>\<open>create_executive_summary\<close> raises a division-by-zero error, and returns no
  table, whenever the portfolio has no initiatives; with at least one initiative it
  returns the four rows of the summary.\<close>

theorem executive_summary_division:
  "(total_initiatives m = 0 \<longrightarrow> create_executive_summary m = Inl ZeroDivisionError) \<and>
   (0 < total_initiatives m \<longrightarrow>
      (\<exists>rows. create_executive_summary m = Inr rows \<and> length rows = 4 \<and>
         map metric_name rows =
           [''Portfolio ROI'', ''Budget Utilization'', ''At-Risk Initiatives'', ''Completion Rate'']))"
  by (simp add: create_executive_summary_def Let_def)

theorem executive_summary_division_witness:
  "create_executive_summary (calculate_portfolio_metrics (150 * day) [] []) = Inl ZeroDivisionError \<and>
   map_sum id (map (\<lambda>row. (metric_name row, current_value row, summary_row.status row)))
     (create_executive_summary (calculate_portfolio_metrics (150 * day)
       [\<lparr>initiative.initiative_id = ''a'', name = ''CRM Migration'', type = ''Digital'',
         start_date = 0, target_end_date = 100 * day,
         budget_allocated = Fin 100000, budget_spent = Fin 85000,
         status = ''Completed'', owner = ''o'', description = ''d'',
         budget_utilization = Fin (7656119366529843 / 9007199254740992), budget_score = 25,
         days_since_start = 150, total_duration = 100,
         time_progress = Fin (3 / 2), time_score = 25,
         revenue_impact = NaN, cost_reduction = NaN, roi_percentage = NaN,
         financial_score = 10,
         efficiency_gain_percentage = NaN, quality_score = NaN,
         employee_satisfaction = NaN, operational_score = Fin 20,
         health_score = Fin 80, health_status = ''Excellent'',
         predicted_completion_date = 100 * day, risk_factors = []\<rparr>] []))
   = Inr [(''Portfolio ROI'', Percent1 (Fin (- 100)), ''Warning''),
          (''Budget Utilization'', Percent1 (Fin 85), ''Good''),
          (''At-Risk Initiatives'', Ratio 0 1, ''Good''),
          (''Completion Rate'', Percent1 (Fin 100), ''Good'')]"
  using executive_summary_division [of "calculate_portfolio_metrics (150 * day) [] []"]
    executive_summary_division [of "calculate_portfolio_metrics (150 * day)
       [\<lparr>initiative.initiative_id = ''a'', name = ''CRM Migration'', type = ''Digital'',
         start_date = 0, target_end_date = 100 * day,
         budget_allocated = Fin 100000, budget_spent = Fin 85000,
         status = ''Completed'', owner = ''o'', description = ''d'',
         budget_utilization = Fin (7656119366529843 / 9007199254740992), budget_score = 25,
         days_since_start = 150, total_duration = 100,
         time_progress = Fin (3 / 2), time_score = 25,
         revenue_impact = NaN, cost_reduction = NaN, roi_percentage = NaN,
         financial_score = 10,
         efficiency_gain_percentage = NaN, quality_score = NaN,
         employee_satisfaction = NaN, operational_score = Fin 20,
         health_score = Fin 80, health_status = ''Excellent'',
         predicted_completion_date = 100 * day, risk_factors = []\<rparr>] []"]
  by (simp add: portfolio_defs create_executive_summary_def fgt_def)

end
